theory Spec2Isabelle
  imports Complex_Main
begin

section \<open>Vectors and scalars\<close>

text \<open>
  The renderer computes on \<^verbatim>\<open>float\<close> and \<^verbatim>\<open>glm::vec3\<close>. Scalars are modelled as
  \<^typ>\<open>real\<close>: arithmetic is exact, there is no rounding, no infinity and no NaN.
  Where the source divides by a quantity that can be zero the model says what it
  does there: \<^verbatim>\<open>renderRays\<close> returns no value for an empty batch (the source
  computes 0/0), and a theorem whose truth depends on the value of
  \<^verbatim>\<open>glm::normalize\<close> assumes a non-zero argument (the source yields NaN components
  for the zero vector; the model has the HOL value of a division by zero there).
\<close>

datatype vec3 = Vec3 (vx: real) (vy: real) (vz: real)

datatype vec2 = Vec2 (v2x: real) (v2y: real)

instantiation vec3 :: "{ab_group_add, times}"
begin

definition zero_vec3 :: vec3 where
  "zero_vec3 = Vec3 0 0 0"

definition plus_vec3 :: "vec3 \<Rightarrow> vec3 \<Rightarrow> vec3" where
  "plus_vec3 a b = Vec3 (vx a + vx b) (vy a + vy b) (vz a + vz b)"

definition minus_vec3 :: "vec3 \<Rightarrow> vec3 \<Rightarrow> vec3" where
  "minus_vec3 a b = Vec3 (vx a - vx b) (vy a - vy b) (vz a - vz b)"

definition uminus_vec3 :: "vec3 \<Rightarrow> vec3" where
  "uminus_vec3 a = Vec3 (- vx a) (- vy a) (- vz a)"

definition times_vec3 :: "vec3 \<Rightarrow> vec3 \<Rightarrow> vec3" where
  "times_vec3 a b = Vec3 (vx a * vx b) (vy a * vy b) (vz a * vz b)"

instance
  by standard
    (simp_all add: zero_vec3_def plus_vec3_def minus_vec3_def uminus_vec3_def)

end

text \<open>\<^verbatim>\<open>glm::vec3(s)\<close>: the same scalar in every component.\<close>

definition splat :: "real \<Rightarrow> vec3" where
  "splat s = Vec3 s s s"

text \<open>\<^verbatim>\<open>v * s\<close>, \<^verbatim>\<open>s * v\<close>, \<^verbatim>\<open>v + s\<close> and \<^verbatim>\<open>v / s\<close> for a vector and a scalar.\<close>

definition vscale :: "vec3 \<Rightarrow> real \<Rightarrow> vec3" where
  "vscale v s = Vec3 (vx v * s) (vy v * s) (vz v * s)"

definition scalev :: "real \<Rightarrow> vec3 \<Rightarrow> vec3" where
  "scalev s v = Vec3 (s * vx v) (s * vy v) (s * vz v)"

definition vadds :: "vec3 \<Rightarrow> real \<Rightarrow> vec3" where
  "vadds v s = Vec3 (vx v + s) (vy v + s) (vz v + s)"

definition vdivs :: "vec3 \<Rightarrow> real \<Rightarrow> vec3" where
  "vdivs v s = Vec3 (vx v / s) (vy v / s) (vz v / s)"

definition dot :: "vec3 \<Rightarrow> vec3 \<Rightarrow> real" where
  "dot a b = vx a * vx b + vy a * vy b + vz a * vz b"

text \<open>\<^verbatim>\<open>glm::normalize(v) = v * inversesqrt(dot(v, v))\<close>.\<close>

definition normalize_vec :: "vec3 \<Rightarrow> vec3" where
  "normalize_vec v = vscale v (1 / sqrt (dot v v))"

text \<open>\<^verbatim>\<open>glm::reflect(I, N) = I - N * dot(N, I) * 2\<close>.\<close>

definition reflect :: "vec3 \<Rightarrow> vec3 \<Rightarrow> vec3" where
  "reflect i n = i - vscale (vscale n (dot n i)) 2"

text \<open>\<^verbatim>\<open>glm::mix(x, y, a) = x * (1 - a) + y * a\<close>.\<close>

definition mix :: "vec3 \<Rightarrow> vec3 \<Rightarrow> real \<Rightarrow> vec3" where
  "mix a b alpha = vscale a (1 - alpha) + vscale b alpha"

text \<open>\<^verbatim>\<open>glm::max(a, b) = (a < b) ? b : a\<close> and \<^verbatim>\<open>glm::clamp(x, lo, hi) = min(max(x, lo), hi)\<close>,
  with \<^verbatim>\<open>glm::min(a, b) = (b < a) ? b : a\<close>.\<close>

definition glm_max :: "real \<Rightarrow> real \<Rightarrow> real" where
  "glm_max a b = (if a < b then b else a)"

definition glm_min :: "real \<Rightarrow> real \<Rightarrow> real" where
  "glm_min a b = (if b < a then b else a)"

definition glm_clamp :: "real \<Rightarrow> real \<Rightarrow> real \<Rightarrow> real" where
  "glm_clamp x lo hi = glm_min (glm_max x lo) hi"

text \<open>
  \<^verbatim>\<open>glm::pow\<close> on scalars is \<^verbatim>\<open>std::pow\<close>: any base to the exponent zero is one
  (also a zero base), and a zero base to a positive exponent is zero. The base is
  never negative where the renderer calls it (it is a \<^verbatim>\<open>glm::max(0.0f, _)\<close>), and a
  zero base with a negative exponent (infinity in the source) is outside the
  material invariant \<open>shininess \<ge> 0\<close>.
\<close>

definition glm_pow :: "real \<Rightarrow> real \<Rightarrow> real" where
  "glm_pow b e = (if e = 0 then 1 else if b = 0 then 0 else b powr e)"

section \<open>Scene data\<close>

text \<open>\<^verbatim>\<open>Ray\<close>: a default-constructed ray has \<^verbatim>\<open>t = std::numeric_limits<float>::max()\<close>.\<close>

record Ray =
  origin :: vec3
  direction :: vec3
  t :: real

definition FLT_MAX :: real where
  "FLT_MAX = 340282346638528859811704183484516925440"

typedecl Image

record Material =
  kd :: vec3
  ks :: vec3
  shininess :: real
  transparency :: real
  kdTexture :: "Image option"

record HitInfo =
  normal :: vec3
  texCoord :: vec2
  material :: Material

record PointLight =
  position :: vec3
  color :: vec3

record SegmentLight =
  endpoint0 :: vec3
  endpoint1 :: vec3
  seg_color0 :: vec3
  seg_color1 :: vec3

record ParallelogramLight =
  v0 :: vec3
  edge01 :: vec3
  edge02 :: vec3
  color0 :: vec3
  color1 :: vec3
  color2 :: vec3
  color3 :: vec3

datatype Light = LPoint PointLight | LSegment SegmentLight | LParallelogram ParallelogramLight

datatype ShadingModel = Lambertian | Phong | BlinnPhong | LinearGradientModel

text \<open>The feature configuration, with the fields the renderer reads
  (\<open>enableGlossyReflection\<close> is \<^verbatim>\<open>features.extra.enableGlossyReflection\<close>;
  \<open>numShadowSamples\<close> is a \<^verbatim>\<open>uint32_t\<close>, a natural number here).\<close>

record Features =
  enableShading :: bool
  shadingModel :: ShadingModel
  enableTextureMapping :: bool
  enableBilinearTextureFiltering :: bool
  enableShadows :: bool
  enableTransparency :: bool
  enableReflections :: bool
  enableGlossyReflection :: bool
  numShadowSamples :: nat

text \<open>
  \<^verbatim>\<open>RenderState\<close> is passed by reference through every call. The model passes it
  explicitly and returns it updated. \<open>sampler\<close> is the state of the random
  sample source. The last three fields are logs, not members of the C++
  struct: \<open>drawnRays\<close> is the debug sink that \<^verbatim>\<open>drawRay\<close> writes to,
  \<open>bvhQueries\<close> lists the rays handed to \<^verbatim>\<open>state.bvh.intersect\<close>, and
  \<open>renderCalls\<close> lists the \<^verbatim>\<open>rayDepth\<close> of every call of \<^verbatim>\<open>renderRay\<close>,
  each in the order of the calls.
\<close>

record 's RenderState =
  features :: Features
  lights :: "Light list"
  sampler :: 's
  drawnRays :: "(Ray \<times> vec3) list"
  bvhQueries :: "Ray list"
  renderCalls :: "int list"

text \<open>
  Modelled from the spec: the external collaborators, whose code is not part of
  the sources under study (BVH, environment map, texture sampling, the sampler
  of the framework, and \<^verbatim>\<open>renderRayGlossyComponent\<close> of \<^verbatim>\<open>extra.cpp\<close>). They are
  parameters of the model.
  \<^item> \<open>bvh_intersect\<close>: \<^verbatim>\<open>bvh.intersect(ray) -> (hit, HitInfo)\<close>; on a hit it gives the
    new \<^verbatim>\<open>ray.t\<close> and the \<^verbatim>\<open>HitInfo\<close>.
  \<^item> \<open>sampleEnvironmentMap\<close>: the radiance of a ray that leaves the scene.
  \<^item> \<open>sampleTextureNearest\<close>, \<open>sampleTextureBilinear\<close>: the diffuse colour of a texture.
  \<^item> \<open>next_1d\<close>, \<open>next_2d\<close>: one draw from the sampler, with the sampler's next state.
  \<^item> \<open>glossyRays\<close>, \<open>glossyBlend\<close>: the glossy variant draws its secondary rays
    (it may use the sampler) and combines the colours that \<^verbatim>\<open>renderRay\<close> returns
    for them at \<^verbatim>\<open>rayDepth + 1\<close> with the hit colour.
\<close>

record 's Collab =
  bvh_intersect :: "Ray \<Rightarrow> (real \<times> HitInfo) option"
  sampleEnvironmentMap :: "Ray \<Rightarrow> vec3"
  sampleTextureNearest :: "Image \<Rightarrow> vec2 \<Rightarrow> vec3"
  sampleTextureBilinear :: "Image \<Rightarrow> vec2 \<Rightarrow> vec3"
  next_1d :: "'s \<Rightarrow> real \<times> 's"
  next_2d :: "'s \<Rightarrow> vec2 \<times> 's"
  glossyRays :: "Features \<Rightarrow> Ray \<Rightarrow> HitInfo \<Rightarrow> 's \<Rightarrow> Ray list \<times> 's"
  glossyBlend :: "HitInfo \<Rightarrow> vec3 \<Rightarrow> vec3 list \<Rightarrow> vec3"

definition drawRay :: "Ray \<Rightarrow> vec3 \<Rightarrow> 's RenderState \<Rightarrow> 's RenderState" where
  "drawRay r c st = st\<lparr>drawnRays := drawnRays st @ [(r, c)]\<rparr>"

definition intersect ::
  "'s Collab \<Rightarrow> 's RenderState \<Rightarrow> Ray \<Rightarrow> (real \<times> HitInfo) option \<times> 's RenderState" where
  "intersect E st r = (bvh_intersect E r, st\<lparr>bvhQueries := bvhQueries st @ [r]\<rparr>)"

section \<open>Shading engine\<close>

definition sampleMaterialKd :: "'s Collab \<Rightarrow> 's RenderState \<Rightarrow> HitInfo \<Rightarrow> vec3" where
  "sampleMaterialKd E st hitInfo =
     (case kdTexture (material hitInfo) of
        Some tex \<Rightarrow>
          (if enableTextureMapping (features st) then
             (if enableBilinearTextureFiltering (features st)
              then sampleTextureBilinear E tex (texCoord hitInfo)
              else sampleTextureNearest E tex (texCoord hitInfo))
           else kd (material hitInfo))
      | None \<Rightarrow> kd (material hitInfo))"

definition computeLambertianModel ::
  "'s Collab \<Rightarrow> 's RenderState \<Rightarrow> vec3 \<Rightarrow> vec3 \<Rightarrow> vec3 \<Rightarrow> HitInfo \<Rightarrow> vec3" where
  "computeLambertianModel E st cameraDirection lightDirection lightColor hitInfo =
     (let N = normalize_vec (normal hitInfo);
          L = normalize_vec lightDirection;
          lambertian = glm_max 0 (dot N L);
          kdS = sampleMaterialKd E st hitInfo
      in vscale (kdS * lightColor) lambertian)"

definition computePhongModel ::
  "'s Collab \<Rightarrow> 's RenderState \<Rightarrow> vec3 \<Rightarrow> vec3 \<Rightarrow> vec3 \<Rightarrow> HitInfo \<Rightarrow> vec3" where
  "computePhongModel E st cameraDirection lightDirection lightColor hitInfo =
     (let N = normalize_vec (normal hitInfo);
          L = normalize_vec lightDirection;
          V = normalize_vec cameraDirection;
          R = reflect (- L) N;
          NdotL = glm_max (dot N L) 0;
          kdS = vscale (sampleMaterialKd E st hitInfo) NdotL;
          diffuse = vscale (kdS * lightColor) NdotL;
          RdotV = glm_max (dot R V) 0;
          specular = vscale (ks (material hitInfo) * lightColor) RdotV
      in diffuse + specular)"

definition computeBlinnPhongModel ::
  "'s Collab \<Rightarrow> 's RenderState \<Rightarrow> vec3 \<Rightarrow> vec3 \<Rightarrow> vec3 \<Rightarrow> HitInfo \<Rightarrow> vec3" where
  "computeBlinnPhongModel E st cameraDirection lightDirection lightColor hitInfo =
     (let N = normalize_vec (normal hitInfo);
          L = normalize_vec lightDirection;
          V = normalize_vec cameraDirection;
          H = normalize_vec (L + V);
          NdotL = glm_max (dot N L) 0;
          kdS = sampleMaterialKd E st hitInfo;
          diffuse = vscale (kdS * lightColor) NdotL;
          NdotH = glm_pow (glm_max 0 (dot N H)) (shininess (material hitInfo));
          specular = vscale (ks (material hitInfo) * lightColor) NdotH
      in diffuse + specular)"

section \<open>Gradient sampler\<close>

record GradientComponent =
  comp_t :: real
  comp_color :: vec3

text \<open>An \<^verbatim>\<open>assert\<close> that fails aborts the render; it is the error of the model.\<close>

datatype error = AssertionFailed

text \<open>The search loop of \<^verbatim>\<open>LinearGradient::sample\<close>, from index \<open>i\<close> on.\<close>

function sampleLoop :: "GradientComponent list \<Rightarrow> real \<Rightarrow> nat \<Rightarrow> error + vec3" where
  "sampleLoop components ti i =
     (if i < length components - 1 then
        (let ta = comp_t (components ! i);
             tb = comp_t (components ! (i + 1))
         in if ta \<le> ti \<and> ti \<le> tb then
              (let colorA = comp_color (components ! i);
                   colorB = comp_color (components ! (i + 1));
                   alpha = (ti - ta) / (tb - ta)
               in Inr (mix colorA colorB alpha))
            else sampleLoop components ti (i + 1))
      else Inl AssertionFailed)"
  by pat_completeness auto
termination
  by (relation "measure (\<lambda>(components, ti, i). length components - i)") auto

definition LinearGradient_sample :: "GradientComponent list \<Rightarrow> real \<Rightarrow> error + vec3" where
  "LinearGradient_sample components ti =
     (if \<not> 2 \<le> length components then Inl AssertionFailed
      else if ti \<le> comp_t (hd components) then Inr (comp_color (hd components))
      else if comp_t (last components) \<le> ti then Inr (comp_color (last components))
      else sampleLoop components ti 0)"

definition computeLinearGradientModel ::
  "'s Collab \<Rightarrow> 's RenderState \<Rightarrow> vec3 \<Rightarrow> vec3 \<Rightarrow> vec3 \<Rightarrow> HitInfo \<Rightarrow> GradientComponent list
    \<Rightarrow> error + vec3" where
  "computeLinearGradientModel E st cameraDirection lightDirection lightColor hitInfo gradient =
     (let cos_theta = dot (normalize_vec lightDirection) (normalize_vec (normal hitInfo));
          cos_theta' = glm_clamp cos_theta (- 1) 1
      in case LinearGradient_sample gradient cos_theta' of
           Inl e \<Rightarrow> Inl e
         | Inr sampledColor \<Rightarrow> Inr (sampledColor * lightColor))"

text \<open>The gradient that \<^verbatim>\<open>computeShading\<close> hard-codes.\<close>

definition gradient :: "GradientComponent list" where
  "gradient =
     [\<lparr>comp_t = 1 / 10, comp_color = Vec3 (215 / 256) (210 / 256) (203 / 256)\<rparr>,
      \<lparr>comp_t = 22 / 100, comp_color = Vec3 (250 / 256) (250 / 256) (240 / 256)\<rparr>,
      \<lparr>comp_t = 1 / 2, comp_color = Vec3 (145 / 256) (170 / 256) (175 / 256)\<rparr>,
      \<lparr>comp_t = 78 / 100, comp_color = Vec3 (255 / 256) (250 / 256) (205 / 256)\<rparr>,
      \<lparr>comp_t = 9 / 10, comp_color = Vec3 (170 / 256) (170 / 256) (170 / 256)\<rparr>]"

text \<open>
  \<^verbatim>\<open>computeShading\<close>. The hard-coded gradient has five components in ascending
  order, so its sampling never fails an assertion (lemma \<open>gradient_sample_defined\<close>
  below), and the function returns a colour.
\<close>

definition computeShading ::
  "'s Collab \<Rightarrow> 's RenderState \<Rightarrow> vec3 \<Rightarrow> vec3 \<Rightarrow> vec3 \<Rightarrow> HitInfo \<Rightarrow> vec3" where
  "computeShading E st cameraDirection lightDirection lightColor hitInfo =
     (if enableShading (features st) then
        (case shadingModel (features st) of
           Lambertian \<Rightarrow> computeLambertianModel E st cameraDirection lightDirection lightColor hitInfo
         | Phong \<Rightarrow> computePhongModel E st cameraDirection lightDirection lightColor hitInfo
         | BlinnPhong \<Rightarrow> computeBlinnPhongModel E st cameraDirection lightDirection lightColor hitInfo
         | LinearGradientModel \<Rightarrow>
             (case computeLinearGradientModel E st cameraDirection lightDirection lightColor hitInfo
                     gradient of
                Inr c \<Rightarrow> c
              | Inl e \<Rightarrow> splat 0))
      else lightColor * sampleMaterialKd E st hitInfo)"

section \<open>Light sampler\<close>

text \<open>The two reference return values \<^verbatim>\<open>position\<close> and \<^verbatim>\<open>color\<close> are returned as a pair.\<close>

definition sampleSegmentLight :: "real \<Rightarrow> SegmentLight \<Rightarrow> vec3 \<times> vec3" where
  "sampleSegmentLight sample light =
     (endpoint0 light + scalev sample (endpoint1 light - endpoint0 light),
      mix (seg_color0 light) (seg_color1 light) sample)"

definition sampleParallelogramLight :: "vec2 \<Rightarrow> ParallelogramLight \<Rightarrow> vec3 \<times> vec3" where
  "sampleParallelogramLight sample light =
     (let u = edge01 light;
          v = edge02 light;
          pos = v0 light + (vscale u (v2x sample) + vscale v (v2y sample));
          c0 = color0 light;
          c1 = color1 light;
          c2 = color2 light;
          c3 = color3 light
      in (pos,
          vscale (vscale c0 (1 - v2x sample)) (1 - v2y sample)
          + vscale (vscale c1 (v2x sample)) (1 - v2y sample)
          + vscale (vscale c2 (1 - v2x sample)) (v2y sample)
          + vscale (vscale c3 (v2x sample)) (v2y sample)))"

section \<open>Visibility resolver\<close>

text \<open>On a hit the BVH writes the hit distance into the shadow ray before it is drawn.\<close>

definition visibilityOfLightSampleBinary ::
  "'s Collab \<Rightarrow> 's RenderState \<Rightarrow> vec3 \<Rightarrow> vec3 \<Rightarrow> Ray \<Rightarrow> HitInfo \<Rightarrow> bool \<times> 's RenderState" where
  "visibilityOfLightSampleBinary E st lightPosition lightColor ray hitInfo =
     (let so = vadds (origin ray + vscale (direction ray) (t ray)) (1 / 10000);
          shadowRay = \<lparr>origin = so, direction = normalize_vec (lightPosition - so), t = FLT_MAX\<rparr>;
          (shadowHit, st1) = intersect E st shadowRay
      in case shadowHit of
           Some (th, shadowHitInfo) \<Rightarrow> (False, drawRay (shadowRay\<lparr>t := th\<rparr>) (Vec3 0 0 1) st1)
         | None \<Rightarrow> (True, drawRay shadowRay (Vec3 0 1 0) st1))"

definition visibilityOfLightSampleTransparency ::
  "'s Collab \<Rightarrow> 's RenderState \<Rightarrow> vec3 \<Rightarrow> vec3 \<Rightarrow> Ray \<Rightarrow> HitInfo \<Rightarrow> vec3 \<times> 's RenderState" where
  "visibilityOfLightSampleTransparency E st lightPosition lightColor ray hitInfo =
     (let intersectionPoint = vadds (origin ray + vscale (direction ray) (t ray)) (1 / 10000);
          so = vadds (origin ray + vscale (direction ray) (t ray)) (1 / 1000);
          shadowRay = \<lparr>origin = so, direction = normalize_vec (lightPosition - so), t = FLT_MAX\<rparr>;
          lightDirection = normalize_vec (lightPosition - intersectionPoint);
          (shadowHit, st1) = intersect E st shadowRay
      in case shadowHit of
           Some (th, shadowHitInfo) \<Rightarrow>
             (vscale (lightColor * kd (material hitInfo)) (1 - transparency (material hitInfo)), st1)
         | None \<Rightarrow> (lightColor, st1))"

definition visibilityOfLightSample ::
  "'s Collab \<Rightarrow> 's RenderState \<Rightarrow> vec3 \<Rightarrow> vec3 \<Rightarrow> Ray \<Rightarrow> HitInfo \<Rightarrow> vec3 \<times> 's RenderState" where
  "visibilityOfLightSample E st lightPosition lightColor ray hitInfo =
     (if \<not> enableShadows (features st) then (lightColor, st)
      else if \<not> enableTransparency (features st) then
        (let (visible, st1) = visibilityOfLightSampleBinary E st lightPosition lightColor ray hitInfo
         in (if visible then lightColor else splat 0, st1))
      else visibilityOfLightSampleTransparency E st lightPosition lightColor ray hitInfo)"

section \<open>Light contribution aggregator\<close>

definition computeContributionPointLight ::
  "'s Collab \<Rightarrow> 's RenderState \<Rightarrow> PointLight \<Rightarrow> Ray \<Rightarrow> HitInfo \<Rightarrow> vec3 \<times> 's RenderState" where
  "computeContributionPointLight E st light ray hitInfo =
     (let intersectionPoint = vadds (origin ray + vscale (direction ray) (t ray)) (1 / 10000);
          lightDirection = normalize_vec (position light - intersectionPoint);
          so = vadds intersectionPoint (1 / 1000);
          shadowRay = \<lparr>origin = so, direction = normalize_vec (position light - so), t = FLT_MAX\<rparr>;
          (isLightVisible, st1) =
             visibilityOfLightSampleBinary E st (position light) (color light) ray hitInfo
      in if isLightVisible then
           (if transparency (material hitInfo) < 1 then
              (let (transparentShadowColor, st2) =
                      visibilityOfLightSampleTransparency E st1 (position light) (color light)
                        shadowRay hitInfo;
                   viewDirection = - direction ray;
                   shadingResult =
                      computeShading E st2 viewDirection lightDirection (color light) hitInfo
               in (vscale shadingResult (1 - transparency (material hitInfo))
                     + transparentShadowColor, st2))
            else
              (let viewDirection = - direction ray;
                   shadingResult =
                      computeShading E st1 viewDirection lightDirection (color light) hitInfo
               in (shadingResult, st1)))
         else (splat 0, st1))"

text \<open>
  One iteration of the sampling loop of \<^verbatim>\<open>computeContributionSegmentLight\<close>, after
  the draw \<open>u\<close>: what it adds to \<^verbatim>\<open>accumulatedLight\<close>, and the state.
\<close>

definition segmentLightSample ::
  "'s Collab \<Rightarrow> 's RenderState \<Rightarrow> SegmentLight \<Rightarrow> Ray \<Rightarrow> HitInfo \<Rightarrow> real \<Rightarrow> vec3 \<times> 's RenderState" where
  "segmentLightSample E st light ray hitInfo u =
     (let (lightPosition, lightColor) = sampleSegmentLight u light;
          intersectionPoint = origin ray + vscale (direction ray) (t ray);
          lightDirection = normalize_vec (lightPosition - intersectionPoint);
          shadowRay = \<lparr>origin = intersectionPoint + scalev (1 / 1000) (normal hitInfo),
                       direction = lightDirection, t = FLT_MAX\<rparr>;
          (isLightVisible, st1) =
             visibilityOfLightSampleBinary E st lightPosition lightColor shadowRay hitInfo
      in if isLightVisible then
           (let viewDirection = - direction ray;
                shadingResult = computeShading E st1 viewDirection lightDirection lightColor hitInfo
            in (shadingResult, st1))
         else (0, st1))"

text \<open>The loop \<^verbatim>\<open>for (uint32_t i = 0; i < numSamples; ++i)\<close>; its body does not read \<open>i\<close>,
  so the recursion is on the number of iterations left.\<close>

fun segmentLightLoop ::
  "'s Collab \<Rightarrow> SegmentLight \<Rightarrow> Ray \<Rightarrow> HitInfo \<Rightarrow> nat \<Rightarrow> vec3 \<Rightarrow> 's RenderState
    \<Rightarrow> vec3 \<times> 's RenderState" where
  "segmentLightLoop E light ray hitInfo 0 accumulatedLight st = (accumulatedLight, st)"
| "segmentLightLoop E light ray hitInfo (Suc n) accumulatedLight st =
     (let (u, smp) = next_1d E (sampler st);
          (c, st1) = segmentLightSample E (st\<lparr>sampler := smp\<rparr>) light ray hitInfo u
      in segmentLightLoop E light ray hitInfo n (accumulatedLight + c) st1)"

definition computeContributionSegmentLight ::
  "'s Collab \<Rightarrow> 's RenderState \<Rightarrow> SegmentLight \<Rightarrow> Ray \<Rightarrow> HitInfo \<Rightarrow> nat \<Rightarrow> vec3 \<times> 's RenderState" where
  "computeContributionSegmentLight E st light ray hitInfo numSamples =
     (let (accumulatedLight, st1) = segmentLightLoop E light ray hitInfo numSamples (splat 0) st
      in (if 0 < numSamples then vdivs accumulatedLight (real numSamples) else accumulatedLight,
          st1))"

definition parallelogramLightSample ::
  "'s Collab \<Rightarrow> 's RenderState \<Rightarrow> ParallelogramLight \<Rightarrow> Ray \<Rightarrow> HitInfo \<Rightarrow> vec2
    \<Rightarrow> vec3 \<times> 's RenderState" where
  "parallelogramLightSample E st light ray hitInfo u =
     (let (lightPosition, lightColor) = sampleParallelogramLight u light;
          intersectionPoint = vadds (origin ray + vscale (direction ray) (t ray)) (1 / 1000);
          lightDirection = normalize_vec (lightPosition - intersectionPoint);
          shadowRay = \<lparr>origin = intersectionPoint,
                       direction = normalize_vec (lightPosition - intersectionPoint), t = FLT_MAX\<rparr>;
          (isLightVisible, st1) =
             visibilityOfLightSampleBinary E st lightPosition lightColor shadowRay hitInfo
      in if isLightVisible then
           (let st2 = drawRay shadowRay (Vec3 0 0 1) st1;
                viewDirection = - direction ray;
                shadingResult = computeShading E st2 viewDirection lightDirection lightColor hitInfo
            in (shadingResult, st2))
         else (0, drawRay shadowRay (Vec3 0 1 0) st1))"

fun parallelogramLightLoop ::
  "'s Collab \<Rightarrow> ParallelogramLight \<Rightarrow> Ray \<Rightarrow> HitInfo \<Rightarrow> nat \<Rightarrow> vec3 \<Rightarrow> 's RenderState
    \<Rightarrow> vec3 \<times> 's RenderState" where
  "parallelogramLightLoop E light ray hitInfo 0 accumulatedLight st = (accumulatedLight, st)"
| "parallelogramLightLoop E light ray hitInfo (Suc n) accumulatedLight st =
     (let (u, smp) = next_2d E (sampler st);
          (c, st1) = parallelogramLightSample E (st\<lparr>sampler := smp\<rparr>) light ray hitInfo u
      in parallelogramLightLoop E light ray hitInfo n (accumulatedLight + c) st1)"

definition computeContributionParallelogramLight ::
  "'s Collab \<Rightarrow> 's RenderState \<Rightarrow> ParallelogramLight \<Rightarrow> Ray \<Rightarrow> HitInfo \<Rightarrow> nat
    \<Rightarrow> vec3 \<times> 's RenderState" where
  "computeContributionParallelogramLight E st light ray hitInfo numSamples =
     (let (accumulatedLight, st1) =
             parallelogramLightLoop E light ray hitInfo numSamples (splat 0) st
      in (if 0 < numSamples then vdivs accumulatedLight (real numSamples) else accumulatedLight,
          st1))"

text \<open>The loop of \<^verbatim>\<open>computeLightContribution\<close> over \<^verbatim>\<open>state.scene.lights\<close>.\<close>

fun lightLoop ::
  "'s Collab \<Rightarrow> Ray \<Rightarrow> HitInfo \<Rightarrow> Light list \<Rightarrow> vec3 \<Rightarrow> 's RenderState \<Rightarrow> vec3 \<times> 's RenderState" where
  "lightLoop E ray hitInfo [] Lo st = (Lo, st)"
| "lightLoop E ray hitInfo (light # rest) Lo st =
     (let (c, st1) =
        (case light of
           LPoint l \<Rightarrow> computeContributionPointLight E st l ray hitInfo
         | LSegment l \<Rightarrow>
             computeContributionSegmentLight E st l ray hitInfo (numShadowSamples (features st))
         | LParallelogram l \<Rightarrow>
             computeContributionParallelogramLight E st l ray hitInfo
               (numShadowSamples (features st)))
      in lightLoop E ray hitInfo rest (Lo + c) st1)"

definition computeLightContribution ::
  "'s Collab \<Rightarrow> 's RenderState \<Rightarrow> Ray \<Rightarrow> HitInfo \<Rightarrow> vec3 \<times> 's RenderState" where
  "computeLightContribution E st ray hitInfo = lightLoop E ray hitInfo (lights st) (splat 0) st"

section \<open>Recursive ray renderer\<close>

text \<open>\<^verbatim>\<open>generateReflectionRay\<close> and \<^verbatim>\<open>generatePassthroughRay\<close> draw debug rays, so they
  take the state and return it.\<close>

definition generateReflectionRay ::
  "Ray \<Rightarrow> HitInfo \<Rightarrow> 's RenderState \<Rightarrow> Ray \<times> 's RenderState" where
  "generateReflectionRay ray hitInfo st =
     (let incidentDirection = normalize_vec (direction ray);
          n = normalize_vec (normal hitInfo);
          reflectedDirection =
             incidentDirection - scalev (2 * dot incidentDirection n) n;
          intersectionPoint =
             origin ray + vscale (direction ray) (t ray) + scalev (1 / 1000) n;
          reflectedRay =
             \<lparr>origin = intersectionPoint, direction = reflectedDirection, t = FLT_MAX\<rparr>;
          normalRay = \<lparr>origin = intersectionPoint, direction = normal hitInfo, t = FLT_MAX\<rparr>;
          st1 = drawRay reflectedRay (Vec3 0 0 1) st;
          st2 = drawRay normalRay (Vec3 1 0 0) st1
      in (reflectedRay, st2))"

definition generatePassthroughRay ::
  "Ray \<Rightarrow> HitInfo \<Rightarrow> 's RenderState \<Rightarrow> Ray \<times> 's RenderState" where
  "generatePassthroughRay ray hitInfo st =
     (let passthroughRay =
             \<lparr>origin = vadds (origin ray + vscale (direction ray) (t ray)) (1 / 1000),
              direction = direction ray, t = 1\<rparr>
      in (passthroughRay, drawRay passthroughRay (Vec3 0 0 1) st))"

text \<open>
  \<^verbatim>\<open>renderRay\<close> and the recursive components. \<^verbatim>\<open>rayDepth\<close> is a C++ \<^verbatim>\<open>int\<close>; the
  renderer only adds one to it, below 6 in \<^verbatim>\<open>renderRay\<close>, so it is an unbounded
  integer here. \<open>renderRayEach\<close> renders the secondary rays of the glossy
  component one after the other.
\<close>

function
  renderRay :: "'s Collab \<Rightarrow> 's RenderState \<Rightarrow> Ray \<Rightarrow> int \<Rightarrow> vec3 \<times> 's RenderState"
  and renderRaySpecularComponent ::
    "'s Collab \<Rightarrow> 's RenderState \<Rightarrow> Ray \<Rightarrow> HitInfo \<Rightarrow> vec3 \<Rightarrow> int \<Rightarrow> vec3 \<times> 's RenderState"
  and renderRayGlossyComponent ::
    "'s Collab \<Rightarrow> 's RenderState \<Rightarrow> Ray \<Rightarrow> HitInfo \<Rightarrow> vec3 \<Rightarrow> int \<Rightarrow> vec3 \<times> 's RenderState"
  and renderRayTransparentComponent ::
    "'s Collab \<Rightarrow> 's RenderState \<Rightarrow> Ray \<Rightarrow> HitInfo \<Rightarrow> vec3 \<Rightarrow> int \<Rightarrow> vec3 \<times> 's RenderState"
  and renderRayEach ::
    "'s Collab \<Rightarrow> 's RenderState \<Rightarrow> Ray list \<Rightarrow> int \<Rightarrow> vec3 list \<times> 's RenderState"
where
  "renderRay E st ray rayDepth =
     (let st0 = st\<lparr>renderCalls := renderCalls st @ [rayDepth]\<rparr>;
          (hit, st1) = intersect E st0 ray
      in case hit of
           None \<Rightarrow> (sampleEnvironmentMap E ray, drawRay ray (Vec3 1 0 0) st1)
         | Some (th, hitInfo) \<Rightarrow>
             (let ray1 = ray\<lparr>t := th\<rparr>;
                  (Lo, st2) = computeLightContribution E st1 ray1 hitInfo;
                  st3 = drawRay ray1 (splat 1) st2
              in if rayDepth < 6 then
                   (let isReflective = (ks (material hitInfo) \<noteq> splat 0);
                        isTransparent = (transparency (material hitInfo) \<noteq> 1);
                        (Lo1, st4) =
                          (if enableReflections (features st3)
                              \<and> \<not> enableGlossyReflection (features st3) \<and> isReflective
                           then renderRaySpecularComponent E st3 ray1 hitInfo Lo rayDepth
                           else (Lo, st3));
                        (Lo2, st5) =
                          (if enableReflections (features st4)
                              \<and> enableGlossyReflection (features st4) \<and> isReflective
                           then renderRayGlossyComponent E st4 ray1 hitInfo Lo1 rayDepth
                           else (Lo1, st4));
                        (Lo3, st6) =
                          (if enableTransparency (features st5) \<and> isTransparent
                           then renderRayTransparentComponent E st5 ray1 hitInfo Lo2 rayDepth
                           else (Lo2, st5))
                    in (Lo3, st6))
                 else (Lo, st3)))"
| "renderRaySpecularComponent E st ray hitInfo hitColor rayDepth =
     (if enableReflections (features st) then
        (let (reflectedRay, st1) = generateReflectionRay ray hitInfo st
         in if direction reflectedRay \<noteq> splat 0 then
              (let (reflectedColor, st2) = renderRay E st1 reflectedRay (rayDepth + 1);
                   specularColor = ks (material hitInfo) * reflectedColor
               in (hitColor + specularColor, st2))
            else (hitColor, st1))
      else (hitColor, st))"
| "renderRayGlossyComponent E st ray hitInfo hitColor rayDepth =
     (let (rays, smp) = glossyRays E (features st) ray hitInfo (sampler st);
          (colors, st1) = renderRayEach E (st\<lparr>sampler := smp\<rparr>) rays (rayDepth + 1)
      in (glossyBlend E hitInfo hitColor colors, st1))"
| "renderRayTransparentComponent E st ray hitInfo hitColor rayDepth =
     (if enableTransparency (features st) then
        (let (passthroughRay, st1) = generatePassthroughRay ray hitInfo st
         in if direction passthroughRay \<noteq> splat 0 then
              (let (passthroughColor, st2) = renderRay E st1 passthroughRay (rayDepth + 1)
               in (mix hitColor passthroughColor (transparency (material hitInfo)), st2))
            else (hitColor, st1))
      else (hitColor, st))"
| "renderRayEach E st [] rayDepth = ([], st)"
| "renderRayEach E st (r # rs) rayDepth =
     (let (c, st1) = renderRay E st r rayDepth;
          (cs, st2) = renderRayEach E st1 rs rayDepth
      in (c # cs, st2))"
  by pat_completeness auto
termination
  by (relation "inv_image (less_than <*lex*> less_than)
       (\<lambda>x. case x of
          Inl (Inl (E, st, ray, d)) \<Rightarrow> (3 * nat (6 - d), 0)
        | Inl (Inr (E, st, ray, h, c, d)) \<Rightarrow> (3 * nat (5 - d) + 2, 0)
        | Inr (Inl (E, st, ray, h, c, d)) \<Rightarrow> (3 * nat (5 - d) + 2, 0)
        | Inr (Inr (Inl (E, st, ray, h, c, d))) \<Rightarrow> (3 * nat (5 - d) + 2, 0)
        | Inr (Inr (Inr (E, st, rs, d))) \<Rightarrow> (3 * nat (6 - d) + 1, length rs))") auto

text \<open>The loop of \<^verbatim>\<open>renderRays\<close> over the batch.\<close>

fun renderRaysLoop ::
  "'s Collab \<Rightarrow> Ray list \<Rightarrow> int \<Rightarrow> vec3 \<Rightarrow> 's RenderState \<Rightarrow> vec3 \<times> 's RenderState" where
  "renderRaysLoop E [] rayDepth L st = (L, st)"
| "renderRaysLoop E (ray # rays) rayDepth L st =
     (let (c, st1) = renderRay E st ray rayDepth
      in renderRaysLoop E rays rayDepth (L + c) st1)"

text \<open>\<^verbatim>\<open>renderRays\<close> divides by \<^verbatim>\<open>rays.size()\<close>. For an empty batch that is 0/0, a
  vector of NaN in the source: the model returns \<open>None\<close> there.\<close>

definition renderRays ::
  "'s Collab \<Rightarrow> 's RenderState \<Rightarrow> Ray list \<Rightarrow> int \<Rightarrow> vec3 option \<times> 's RenderState" where
  "renderRays E st rays rayDepth =
     (let (L, st1) = renderRaysLoop E rays rayDepth (splat 0) st
      in (if rays = [] then None else Some (vdivs L (real (length rays))), st1))"

section \<open>Shadow rays and the point-light formula of the specification\<close>

text \<open>The shadow ray that \<^verbatim>\<open>visibilityOfLightSampleBinary\<close> hands to the BVH, as cast.\<close>

definition binaryShadowRay :: "vec3 \<Rightarrow> Ray \<Rightarrow> Ray" where
  "binaryShadowRay lightPosition ray =
     (let so = vadds (origin ray + vscale (direction ray) (t ray)) (1 / 10000)
      in \<lparr>origin = so, direction = normalize_vec (lightPosition - so), t = FLT_MAX\<rparr>)"

text \<open>The shadow ray that \<^verbatim>\<open>visibilityOfLightSampleTransparency\<close> hands to the BVH.\<close>

definition transparencyShadowRay :: "vec3 \<Rightarrow> Ray \<Rightarrow> Ray" where
  "transparencyShadowRay lightPosition ray =
     (let so = vadds (origin ray + vscale (direction ray) (t ray)) (1 / 1000)
      in \<lparr>origin = so, direction = normalize_vec (lightPosition - so), t = FLT_MAX\<rparr>)"

text \<open>The local \<^verbatim>\<open>shadowRay\<close> of \<^verbatim>\<open>computeContributionPointLight\<close>, which it passes to the
  attenuated visibility test in the place of the incident ray.\<close>

definition pointLightShadowRay :: "PointLight \<Rightarrow> Ray \<Rightarrow> Ray" where
  "pointLightShadowRay light ray =
     (let intersectionPoint = vadds (origin ray + vscale (direction ray) (t ray)) (1 / 10000);
          so = vadds intersectionPoint (1 / 1000)
      in \<lparr>origin = so, direction = normalize_vec (position light - so), t = FLT_MAX\<rparr>)"

text \<open>The shading term of \<^verbatim>\<open>computeContributionPointLight\<close>.\<close>

definition pointLightShading ::
  "'s Collab \<Rightarrow> 's RenderState \<Rightarrow> PointLight \<Rightarrow> Ray \<Rightarrow> HitInfo \<Rightarrow> vec3" where
  "pointLightShading E st light ray hitInfo =
     (let intersectionPoint = vadds (origin ray + vscale (direction ray) (t ray)) (1 / 10000);
          lightDirection = normalize_vec (position light - intersectionPoint)
      in computeShading E st (- direction ray) lightDirection (color light) hitInfo)"

text \<open>
  The net formula of the specification for a point light,
  \<open>shading * (1 - transparency) + attenuatedVisibility\<close>, with the attenuated
  visibility of the same light at the same intersection.
\<close>

definition pointLightNetFormula ::
  "'s Collab \<Rightarrow> 's RenderState \<Rightarrow> PointLight \<Rightarrow> Ray \<Rightarrow> HitInfo \<Rightarrow> vec3" where
  "pointLightNetFormula E st light ray hitInfo =
     vscale (pointLightShading E st light ray hitInfo) (1 - transparency (material hitInfo))
     + fst (visibilityOfLightSampleTransparency E st (position light) (color light) ray hitInfo)"

section \<open>Concrete scenes\<close>

text \<open>
  Inputs at which the theorems below are evaluated. The sampler state is a
  counter: the first draw is 0, every later one is 1/2. The material is the
  default one of the framework (white diffuse, no specular part, opaque).
\<close>

definition collab0 :: "(Ray \<Rightarrow> (real \<times> HitInfo) option) \<Rightarrow> nat Collab" where
  "collab0 isect =
     \<lparr>bvh_intersect = isect,
      sampleEnvironmentMap = (\<lambda>r. Vec3 0 0 0),
      sampleTextureNearest = (\<lambda>i c. Vec3 0 0 0),
      sampleTextureBilinear = (\<lambda>i c. Vec3 0 0 0),
      next_1d = (\<lambda>n. (if n = 0 then 0 else 1 / 2, Suc n)),
      next_2d = (\<lambda>n. (if n = 0 then Vec2 0 0 else Vec2 (1 / 2) (1 / 2), Suc n)),
      glossyRays = (\<lambda>f r h s. ([], s)),
      glossyBlend = (\<lambda>h c cs. c)\<rparr>"

definition material0 :: Material where
  "material0 =
     \<lparr>kd = Vec3 1 1 1, ks = Vec3 0 0 0, shininess = 1, transparency = 1, kdTexture = None\<rparr>"

definition hit0 :: HitInfo where
  "hit0 = \<lparr>normal = Vec3 0 0 1, texCoord = Vec2 0 0, material = material0\<rparr>"

definition features0 :: Features where
  "features0 =
     \<lparr>enableShading = False, shadingModel = Lambertian, enableTextureMapping = False,
      enableBilinearTextureFiltering = False, enableShadows = False,
      enableTransparency = False, enableReflections = False,
      enableGlossyReflection = False, numShadowSamples = 1\<rparr>"

definition state0 :: "Features \<Rightarrow> Light list \<Rightarrow> nat RenderState" where
  "state0 f ls =
     \<lparr>features = f, lights = ls, sampler = 0, drawnRays = [], bvhQueries = [],
      renderCalls = []\<rparr>"

definition ray0 :: Ray where
  "ray0 = \<lparr>origin = Vec3 0 0 0, direction = Vec3 0 0 (- 1), t = FLT_MAX\<rparr>"

definition pointLight0 :: PointLight where
  "pointLight0 = \<lparr>position = Vec3 0 0 1, color = Vec3 1 1 1\<rparr>"

definition materialClear :: Material where
  "materialClear = material0\<lparr>transparency := 0\<rparr>"

definition hitClear :: HitInfo where
  "hitClear = hit0\<lparr>material := materialClear\<rparr>"

definition materialShiny :: Material where
  "materialShiny = material0\<lparr>ks := Vec3 1 1 1, shininess := 0\<rparr>"

definition hitShiny :: HitInfo where
  "hitShiny = hit0\<lparr>material := materialShiny\<rparr>"

section \<open>Sampler draws and frames\<close>

text \<open>The sampler after \<open>i\<close> draws, and the value of the draw number \<open>i\<close> (from 0).\<close>

definition samplerAfter1d :: "'s Collab \<Rightarrow> 's \<Rightarrow> nat \<Rightarrow> 's" where
  "samplerAfter1d E s i = ((\<lambda>s. snd (next_1d E s)) ^^ i) s"

definition draw1d :: "'s Collab \<Rightarrow> 's \<Rightarrow> nat \<Rightarrow> real" where
  "draw1d E s i = fst (next_1d E (samplerAfter1d E s i))"

definition samplerAfter2d :: "'s Collab \<Rightarrow> 's \<Rightarrow> nat \<Rightarrow> 's" where
  "samplerAfter2d E s i = ((\<lambda>s. snd (next_2d E s)) ^^ i) s"

definition draw2d :: "'s Collab \<Rightarrow> 's \<Rightarrow> nat \<Rightarrow> vec2" where
  "draw2d E s i = fst (next_2d E (samplerAfter2d E s i))"

text \<open>Two states with the same scene and configuration (the sampler and the logs may differ).\<close>

definition sameScene :: "'s RenderState \<Rightarrow> 's RenderState \<Rightarrow> bool" where
  "sameScene st st' \<longleftrightarrow> features st' = features st \<and> lights st' = lights st"

text \<open>A step that keeps the scene and makes no call of \<^verbatim>\<open>renderRay\<close>.\<close>

definition lightFrame :: "'s RenderState \<Rightarrow> 's RenderState \<Rightarrow> bool" where
  "lightFrame st st' \<longleftrightarrow> sameScene st st' \<and> renderCalls st' = renderCalls st"

text \<open>A step that keeps the scene and adds calls of \<^verbatim>\<open>renderRay\<close> at depths from \<open>lo\<close> to \<open>hi\<close>.\<close>

definition callsWithin :: "int \<Rightarrow> int \<Rightarrow> 's RenderState \<Rightarrow> 's RenderState \<Rightarrow> bool" where
  "callsWithin lo hi st st' \<longleftrightarrow>
     sameScene st st'
     \<and> (\<exists>new. renderCalls st' = renderCalls st @ new \<and> (\<forall>k \<in> set new. lo \<le> k \<and> k \<le> hi))"

definition segmentLight0 :: SegmentLight where
  "segmentLight0 =
     \<lparr>endpoint0 = Vec3 0 0 1, endpoint1 = Vec3 0 0 2,
      seg_color0 = Vec3 0 0 0, seg_color1 = Vec3 1 1 1\<rparr>"

definition parallelogramLight0 :: ParallelogramLight where
  "parallelogramLight0 =
     \<lparr>v0 = Vec3 0 0 1, edge01 = Vec3 1 0 0, edge02 = Vec3 0 1 0,
      color0 = Vec3 0 0 0, color1 = Vec3 1 1 1, color2 = Vec3 1 1 1, color3 = Vec3 1 1 1\<rparr>"

definition materialMirror :: Material where
  "materialMirror = material0\<lparr>ks := Vec3 1 1 1\<rparr>"

definition hitMirror :: HitInfo where
  "hitMirror = hit0\<lparr>material := materialMirror\<rparr>"

text \<open>A scene in which only rays that start at the camera position hit a surface:
  the camera ray \<open>ray0\<close> hits it, the shadow rays hit nothing.\<close>

definition floorOnly :: "Ray \<Rightarrow> (real \<times> HitInfo) option" where
  "floorOnly r = (if origin r = Vec3 0 0 0 then Some (1, hit0) else None)"

section \<open>Vector arithmetic\<close>

lemma vec3_eq_iff: "a = b \<longleftrightarrow> vx a = vx b \<and> vy a = vy b \<and> vz a = vz b"
  by (cases a, cases b) simp

lemmas vec3_ops = zero_vec3_def plus_vec3_def minus_vec3_def uminus_vec3_def times_vec3_def
  splat_def vscale_def scalev_def vadds_def vdivs_def

section \<open>Light sampler: the parallelogram light\<close>

text \<open>
  C7. For every parallelogram light and every sample \<open>(sx, sy)\<close>, \<open>sampleParallelogramLight\<close>
  returns the position \<open>v0 + edge01*sx + edge02*sy\<close> and the colour
  \<open>color0*(1-sx)*(1-sy) + color1*sx*(1-sy) + color2*(1-sx)*sy + color3*sx*sy\<close>; the sample
  \<open>(0,0)\<close> gives \<open>(v0, color0)\<close> and the sample \<open>(1,1)\<close> gives \<open>(v0 + edge01 + edge02, color3)\<close>.
  The statement holds for every sample, so also on the unit square.
\<close>

theorem sampleParallelogramLight_formula:
  "sampleParallelogramLight (Vec2 sx sy) light =
     (v0 light + vscale (edge01 light) sx + vscale (edge02 light) sy,
      vscale (vscale (color0 light) (1 - sx)) (1 - sy)
      + vscale (vscale (color1 light) sx) (1 - sy)
      + vscale (vscale (color2 light) (1 - sx)) sy
      + vscale (vscale (color3 light) sx) sy)
   \<and> sampleParallelogramLight (Vec2 0 0) light = (v0 light, color0 light)
   \<and> sampleParallelogramLight (Vec2 1 1) light =
       (v0 light + edge01 light + edge02 light, color3 light)"
  by (simp add: sampleParallelogramLight_def Let_def vec3_ops vec3_eq_iff)

section \<open>State bookkeeping\<close>

lemmas scene_defs = collab0_def state0_def features0_def hit0_def material0_def ray0_def
  pointLight0_def materialClear_def hitClear_def

lemma drawRay_simps:
  "features (drawRay r c st) = features st"
  "lights (drawRay r c st) = lights st"
  "sampler (drawRay r c st) = sampler st"
  "bvhQueries (drawRay r c st) = bvhQueries st"
  "renderCalls (drawRay r c st) = renderCalls st"
  "drawnRays (drawRay r c st) = drawnRays st @ [(r, c)]"
  by (simp_all add: drawRay_def)

text \<open>Shading reads the feature configuration and nothing else of the state.\<close>

lemma sampleMaterialKd_features:
  "features st' = features st \<Longrightarrow> sampleMaterialKd E st' hitInfo = sampleMaterialKd E st hitInfo"
  by (simp add: sampleMaterialKd_def split: option.splits)

lemma computeShading_features:
  "features st' = features st \<Longrightarrow>
   computeShading E st' cam l lc hitInfo = computeShading E st cam l lc hitInfo"
  by (simp add: computeShading_def computeLambertianModel_def computePhongModel_def
      computeBlinnPhongModel_def computeLinearGradientModel_def
      sampleMaterialKd_features [of st' st] split: ShadingModel.splits)

lemma pointLightShading_features:
  "features st' = features st \<Longrightarrow>
   pointLightShading E st' light ray hitInfo = pointLightShading E st light ray hitInfo"
  by (simp add: pointLightShading_def computeShading_features [of st' st])

lemma pointLightShading_upd:
  "pointLightShading E (st\<lparr>bvhQueries := q\<rparr>) light ray hitInfo =
     pointLightShading E st light ray hitInfo"
  "pointLightShading E (drawRay r c st) light ray hitInfo =
     pointLightShading E st light ray hitInfo"
  by (rule pointLightShading_features, simp add: drawRay_def)+

section \<open>Visibility resolver\<close>

text \<open>Both visibility tests make one BVH query, with the shadow ray they build.\<close>

lemma visibilityOfLightSampleBinary_eq:
  "visibilityOfLightSampleBinary E st lp lc ray hitInfo =
     (case bvh_intersect E (binaryShadowRay lp ray) of
        Some (th, h) \<Rightarrow>
          (False, drawRay ((binaryShadowRay lp ray)\<lparr>t := th\<rparr>) (Vec3 0 0 1)
                    (st\<lparr>bvhQueries := bvhQueries st @ [binaryShadowRay lp ray]\<rparr>))
      | None \<Rightarrow>
          (True, drawRay (binaryShadowRay lp ray) (Vec3 0 1 0)
                   (st\<lparr>bvhQueries := bvhQueries st @ [binaryShadowRay lp ray]\<rparr>)))"
  by (simp add: visibilityOfLightSampleBinary_def binaryShadowRay_def intersect_def Let_def
      split: option.splits)

lemma visibilityOfLightSampleTransparency_eq:
  "visibilityOfLightSampleTransparency E st lp lc ray hitInfo =
     (case bvh_intersect E (transparencyShadowRay lp ray) of
        Some (th, h) \<Rightarrow>
          (vscale (lc * kd (material hitInfo)) (1 - transparency (material hitInfo)),
           st\<lparr>bvhQueries := bvhQueries st @ [transparencyShadowRay lp ray]\<rparr>)
      | None \<Rightarrow> (lc, st\<lparr>bvhQueries := bvhQueries st @ [transparencyShadowRay lp ray]\<rparr>))"
  by (simp add: visibilityOfLightSampleTransparency_def transparencyShadowRay_def intersect_def
      Let_def split: option.splits)

text \<open>
  C2. \<open>visibilityOfLightSample\<close> returns \<open>lightColor\<close> and leaves the state as it is
  (no BVH query, nothing drawn) when shadows are disabled. With shadows enabled
  and transparency disabled it returns \<open>lightColor\<close> if the shadow ray of the
  binary test hits nothing and the zero vector if it hits anything. With both
  enabled it returns \<open>lightColor\<close> if the shadow ray of the attenuated test hits
  nothing and \<open>lightColor * kd * (1 - transparency)\<close> otherwise, with \<open>kd\<close> and
  \<open>transparency\<close> of the material of \<open>hitInfo\<close>, the receiving intersection.
\<close>

theorem visibilityOfLightSample_cases:
  "(\<not> enableShadows (features st) \<longrightarrow>
      visibilityOfLightSample E st lp lc ray hitInfo = (lc, st))
   \<and> (enableShadows (features st) \<and> \<not> enableTransparency (features st) \<longrightarrow>
      fst (visibilityOfLightSample E st lp lc ray hitInfo) =
        (if bvh_intersect E (binaryShadowRay lp ray) = None then lc else splat 0))
   \<and> (enableShadows (features st) \<and> enableTransparency (features st) \<longrightarrow>
      fst (visibilityOfLightSample E st lp lc ray hitInfo) =
        (if bvh_intersect E (transparencyShadowRay lp ray) = None then lc
         else vscale (lc * kd (material hitInfo)) (1 - transparency (material hitInfo))))"
  by (auto simp add: visibilityOfLightSample_def visibilityOfLightSampleBinary_eq
      visibilityOfLightSampleTransparency_eq split: option.splits)

theorem visibilityOfLightSample_cases_witness:
  "\<not> enableShadows (features (state0 features0 []))
   \<and> visibilityOfLightSample (collab0 (\<lambda>r. Some (1, hit0))) (state0 features0 [])
        (Vec3 0 0 1) (Vec3 1 1 1) ray0 hit0 = (Vec3 1 1 1, state0 features0 [])
   \<and> enableShadows (features (state0 (features0\<lparr>enableShadows := True\<rparr>) []))
   \<and> \<not> enableTransparency (features (state0 (features0\<lparr>enableShadows := True\<rparr>) []))
   \<and> fst (visibilityOfLightSample (collab0 (\<lambda>r. Some (1, hit0)))
        (state0 (features0\<lparr>enableShadows := True\<rparr>) []) (Vec3 0 0 1) (Vec3 1 1 1) ray0 hit0)
       = splat 0
   \<and> fst (visibilityOfLightSample (collab0 (\<lambda>r. None))
        (state0 (features0\<lparr>enableShadows := True\<rparr>) []) (Vec3 0 0 1) (Vec3 1 1 1) ray0 hit0)
       = Vec3 1 1 1
   \<and> enableTransparency
        (features (state0 (features0\<lparr>enableShadows := True, enableTransparency := True\<rparr>) []))
   \<and> fst (visibilityOfLightSample (collab0 (\<lambda>r. Some (1, hitClear)))
        (state0 (features0\<lparr>enableShadows := True, enableTransparency := True\<rparr>) [])
        (Vec3 0 0 1) (Vec3 1 1 (1 / 2)) ray0 hitClear) = Vec3 1 1 (1 / 2)"
  using visibilityOfLightSample_cases
    [where st = "state0 features0 []" and E = "collab0 (\<lambda>r. Some (1, hit0))"
      and lp = "Vec3 0 0 1" and lc = "Vec3 1 1 1" and ray = ray0 and hitInfo = hit0]
    visibilityOfLightSample_cases
    [where st = "state0 (features0\<lparr>enableShadows := True\<rparr>) []"
      and E = "collab0 (\<lambda>r. Some (1, hit0))"
      and lp = "Vec3 0 0 1" and lc = "Vec3 1 1 1" and ray = ray0 and hitInfo = hit0]
    visibilityOfLightSample_cases
    [where st = "state0 (features0\<lparr>enableShadows := True\<rparr>) []"
      and E = "collab0 (\<lambda>r. None)"
      and lp = "Vec3 0 0 1" and lc = "Vec3 1 1 1" and ray = ray0 and hitInfo = hit0]
    visibilityOfLightSample_cases
    [where st = "state0 (features0\<lparr>enableShadows := True, enableTransparency := True\<rparr>) []"
      and E = "collab0 (\<lambda>r. Some (1, hitClear))"
      and lp = "Vec3 0 0 1" and lc = "Vec3 1 1 (1 / 2)" and ray = ray0 and hitInfo = hitClear]
  by (simp add: scene_defs vec3_ops)

section \<open>Point lights\<close>

lemma computeContributionPointLight_eq:
  "computeContributionPointLight E st light ray hitInfo =
     (let (isLightVisible, st1) =
             visibilityOfLightSampleBinary E st (position light) (color light) ray hitInfo
      in if isLightVisible then
           (if transparency (material hitInfo) < 1 then
              (let (transparentShadowColor, st2) =
                      visibilityOfLightSampleTransparency E st1 (position light) (color light)
                        (pointLightShadowRay light ray) hitInfo
               in (vscale (pointLightShading E st2 light ray hitInfo)
                     (1 - transparency (material hitInfo)) + transparentShadowColor, st2))
            else (pointLightShading E st1 light ray hitInfo, st1))
         else (splat 0, st1))"
  by (simp add: computeContributionPointLight_def pointLightShadowRay_def pointLightShading_def
      Let_def split: prod.splits)

text \<open>
  C3, as the specification states it, fails: with a transparency below 1 the
  result is not the net formula when the binary test finds the light occluded.
  Here every ray hits a surface, the material is fully transparent
  (\<open>transparency = 0\<close>) and shading is disabled: the contribution is the zero
  vector where the formula gives \<open>(2, 2, 2)\<close>.
\<close>

theorem computeContributionPointLight_net_formula_counterexample:
  "transparency (material hitClear) < 1
   \<and> fst (computeContributionPointLight (collab0 (\<lambda>r. Some (1, hitClear))) (state0 features0 [])
        pointLight0 ray0 hitClear)
     \<noteq> pointLightNetFormula (collab0 (\<lambda>r. Some (1, hitClear))) (state0 features0 [])
        pointLight0 ray0 hitClear"
  by (simp add: computeContributionPointLight_eq visibilityOfLightSampleBinary_eq
      visibilityOfLightSampleTransparency_eq pointLightNetFormula_def pointLightShading_def
      computeShading_def sampleMaterialKd_def scene_defs vec3_ops)

text \<open>
  C3, amended. \<open>computeContributionPointLight\<close> first makes the binary visibility
  test. If its shadow ray hits anything the contribution is the zero vector and
  that BVH query is the only one. If the light is visible and the transparency
  is below 1 it makes a second BVH query, the attenuated visibility test on its
  own biased shadow ray, and returns \<open>shading * (1 - transparency) + attenuatedVisibility\<close>.
  If the light is visible and the transparency is not below 1 it returns the
  shading alone after the one query.
\<close>

theorem computeContributionPointLight_cases:
  "(bvh_intersect E (binaryShadowRay (position light) ray) \<noteq> None \<longrightarrow>
      fst (computeContributionPointLight E st light ray hitInfo) = splat 0
      \<and> bvhQueries (snd (computeContributionPointLight E st light ray hitInfo)) =
          bvhQueries st @ [binaryShadowRay (position light) ray])
   \<and> (bvh_intersect E (binaryShadowRay (position light) ray) = None
        \<and> transparency (material hitInfo) < 1 \<longrightarrow>
      fst (computeContributionPointLight E st light ray hitInfo) =
          vscale (pointLightShading E st light ray hitInfo) (1 - transparency (material hitInfo))
          + fst (visibilityOfLightSampleTransparency E st (position light) (color light)
                   (pointLightShadowRay light ray) hitInfo)
      \<and> bvhQueries (snd (computeContributionPointLight E st light ray hitInfo)) =
          bvhQueries st @ [binaryShadowRay (position light) ray,
            transparencyShadowRay (position light) (pointLightShadowRay light ray)])
   \<and> (bvh_intersect E (binaryShadowRay (position light) ray) = None
        \<and> \<not> transparency (material hitInfo) < 1 \<longrightarrow>
      fst (computeContributionPointLight E st light ray hitInfo) =
          pointLightShading E st light ray hitInfo
      \<and> bvhQueries (snd (computeContributionPointLight E st light ray hitInfo)) =
          bvhQueries st @ [binaryShadowRay (position light) ray])"
proof (cases "bvh_intersect E (binaryShadowRay (position light) ray)")
  case None
  show ?thesis
  proof (cases "bvh_intersect E
      (transparencyShadowRay (position light) (pointLightShadowRay light ray))")
    case inner: None
    show ?thesis
      using None inner
      by (simp add: computeContributionPointLight_eq visibilityOfLightSampleBinary_eq
          visibilityOfLightSampleTransparency_eq drawRay_simps pointLightShading_upd)
  next
    case inner: (Some a)
    show ?thesis
      using None inner
      by (cases a) (simp add: computeContributionPointLight_eq visibilityOfLightSampleBinary_eq
          visibilityOfLightSampleTransparency_eq drawRay_simps pointLightShading_upd)
  qed
next
  case (Some a)
  then show ?thesis
    by (cases a) (simp add: computeContributionPointLight_eq visibilityOfLightSampleBinary_eq
        drawRay_simps)
qed

theorem computeContributionPointLight_cases_witness:
  "bvh_intersect (collab0 (\<lambda>r. Some (1, hitClear))) (binaryShadowRay (position pointLight0) ray0)
      \<noteq> None
   \<and> fst (computeContributionPointLight (collab0 (\<lambda>r. Some (1, hitClear))) (state0 features0 [])
        pointLight0 ray0 hitClear) = splat 0
   \<and> bvh_intersect (collab0 (\<lambda>r. None)) (binaryShadowRay (position pointLight0) ray0) = None
   \<and> transparency (material hitClear) < 1
   \<and> fst (computeContributionPointLight (collab0 (\<lambda>r. None)) (state0 features0 [])
        pointLight0 ray0 hitClear) = Vec3 2 2 2
   \<and> length (bvhQueries (snd (computeContributionPointLight (collab0 (\<lambda>r. None))
        (state0 features0 []) pointLight0 ray0 hitClear))) = 2
   \<and> \<not> transparency (material hit0) < 1
   \<and> fst (computeContributionPointLight (collab0 (\<lambda>r. None)) (state0 features0 [])
        pointLight0 ray0 hit0) = Vec3 1 1 1"
  using computeContributionPointLight_cases
    [where E = "collab0 (\<lambda>r. Some (1, hitClear))" and st = "state0 features0 []"
      and light = pointLight0 and ray = ray0 and hitInfo = hitClear]
    computeContributionPointLight_cases
    [where E = "collab0 (\<lambda>r. None)" and st = "state0 features0 []"
      and light = pointLight0 and ray = ray0 and hitInfo = hitClear]
    computeContributionPointLight_cases
    [where E = "collab0 (\<lambda>r. None)" and st = "state0 features0 []"
      and light = pointLight0 and ray = ray0 and hitInfo = hit0]
  by (simp add: scene_defs pointLightShading_def computeShading_def sampleMaterialKd_def
      visibilityOfLightSampleTransparency_eq vec3_ops)

text \<open>
  C10. \<open>visibilityOfLightSampleBinary\<close> does not read the feature configuration: it
  gives the same answer and the same effects under any configuration \<open>f\<close>. Every
  call of \<open>computeContributionPointLight\<close> starts with the BVH query of the binary
  shadow ray, and when that ray hits anything the contribution is the zero
  vector, whatever \<open>enableShadows\<close> and \<open>enableTransparency\<close> say.
\<close>

theorem pointLight_binary_test_ignores_flags:
  "visibilityOfLightSampleBinary E (st\<lparr>features := f\<rparr>) lp lc ray hitInfo =
     (fst (visibilityOfLightSampleBinary E st lp lc ray hitInfo),
      (snd (visibilityOfLightSampleBinary E st lp lc ray hitInfo))\<lparr>features := f\<rparr>)
   \<and> (\<exists>rest. bvhQueries (snd (computeContributionPointLight E st light ray hitInfo)) =
         bvhQueries st @ binaryShadowRay (position light) ray # rest)
   \<and> (bvh_intersect E (binaryShadowRay (position light) ray) \<noteq> None \<longrightarrow>
        fst (computeContributionPointLight E st light ray hitInfo) = splat 0)"
proof -
  have a: "visibilityOfLightSampleBinary E (st\<lparr>features := f\<rparr>) lp lc ray hitInfo =
     (fst (visibilityOfLightSampleBinary E st lp lc ray hitInfo),
      (snd (visibilityOfLightSampleBinary E st lp lc ray hitInfo))\<lparr>features := f\<rparr>)"
    by (simp add: visibilityOfLightSampleBinary_eq drawRay_def split: option.splits)
  have b: "\<exists>rest. bvhQueries (snd (computeContributionPointLight E st light ray hitInfo)) =
         bvhQueries st @ binaryShadowRay (position light) ray # rest"
    by (simp add: computeContributionPointLight_eq visibilityOfLightSampleBinary_eq
        visibilityOfLightSampleTransparency_eq drawRay_simps split: option.splits)
  have c: "bvh_intersect E (binaryShadowRay (position light) ray) \<noteq> None \<longrightarrow>
        fst (computeContributionPointLight E st light ray hitInfo) = splat 0"
    by (simp add: computeContributionPointLight_eq visibilityOfLightSampleBinary_eq
        split: option.splits)
  from a b c show ?thesis by blast
qed

theorem pointLight_binary_test_ignores_flags_witness:
  "\<not> enableShadows (features (state0 features0 []))
   \<and> bvh_intersect (collab0 (\<lambda>r. Some (1, hit0))) (binaryShadowRay (position pointLight0) ray0)
        \<noteq> None
   \<and> fst (computeContributionPointLight (collab0 (\<lambda>r. Some (1, hit0))) (state0 features0 [])
        pointLight0 ray0 hit0) = splat 0"
  using pointLight_binary_test_ignores_flags
    [where E = "collab0 (\<lambda>r. Some (1, hit0))" and st = "state0 features0 []"
      and light = pointLight0 and ray = ray0 and hitInfo = hit0]
  by (simp add: collab0_def state0_def features0_def)

section \<open>Shading engine\<close>

lemma glm_max_max: "glm_max a b = max a b"
  by (simp add: glm_max_def max_def)

lemma sampleMaterialKd_shininess:
  "sampleMaterialKd E st (hitInfo\<lparr>material := (material hitInfo)\<lparr>shininess := s\<rparr>\<rparr>) =
     sampleMaterialKd E st hitInfo"
  by (simp add: sampleMaterialKd_def split: option.splits)

text \<open>
  C4. \<open>computePhongModel\<close> returns
  \<open>(kd * NdotL) * lightColor * NdotL + ks * lightColor * max(0, dot(R, V))^1\<close> with
  \<open>R = reflect(-L, N)\<close> and \<open>N\<close>, \<open>L\<close>, \<open>V\<close> the normalised normal, light direction and
  camera direction, where \<open>kd\<close> is the diffuse colour that \<open>sampleMaterialKd\<close> gives
  (the texture sample or the material's \<open>kd\<close>). So the diffuse term carries the
  square of the cosine, and the result does not depend on the shininess of the
  material.
\<close>

theorem computePhongModel_formula:
  "computePhongModel E st cameraDirection lightDirection lightColor hitInfo =
     (let N = normalize_vec (normal hitInfo);
          L = normalize_vec lightDirection;
          V = normalize_vec cameraDirection;
          R = reflect (- L) N;
          NdotL = max 0 (dot N L)
      in vscale (vscale (sampleMaterialKd E st hitInfo) NdotL * lightColor) NdotL
         + vscale (ks (material hitInfo) * lightColor) (max 0 (dot R V) ^ 1))
   \<and> computePhongModel E st cameraDirection lightDirection lightColor hitInfo =
     (let N = normalize_vec (normal hitInfo);
          L = normalize_vec lightDirection;
          V = normalize_vec cameraDirection;
          R = reflect (- L) N
      in vscale (sampleMaterialKd E st hitInfo * lightColor) ((max 0 (dot N L))\<^sup>2)
         + vscale (ks (material hitInfo) * lightColor) (max 0 (dot R V)))
   \<and> computePhongModel E st cameraDirection lightDirection lightColor
        (hitInfo\<lparr>material := (material hitInfo)\<lparr>shininess := s\<rparr>\<rparr>)
      = computePhongModel E st cameraDirection lightDirection lightColor hitInfo"
proof -
  have a: "computePhongModel E st cameraDirection lightDirection lightColor hitInfo =
     (let N = normalize_vec (normal hitInfo);
          L = normalize_vec lightDirection;
          V = normalize_vec cameraDirection;
          R = reflect (- L) N;
          NdotL = max 0 (dot N L)
      in vscale (vscale (sampleMaterialKd E st hitInfo) NdotL * lightColor) NdotL
         + vscale (ks (material hitInfo) * lightColor) (max 0 (dot R V) ^ 1))"
    by (simp add: computePhongModel_def Let_def glm_max_max max.commute)
  have b: "computePhongModel E st cameraDirection lightDirection lightColor hitInfo =
     (let N = normalize_vec (normal hitInfo);
          L = normalize_vec lightDirection;
          V = normalize_vec cameraDirection;
          R = reflect (- L) N
      in vscale (sampleMaterialKd E st hitInfo * lightColor) ((max 0 (dot N L))\<^sup>2)
         + vscale (ks (material hitInfo) * lightColor) (max 0 (dot R V)))"
    by (simp add: computePhongModel_def Let_def glm_max_max max.commute vec3_ops
        power2_eq_square mult.assoc)
  have c: "computePhongModel E st cameraDirection lightDirection lightColor
        (hitInfo\<lparr>material := (material hitInfo)\<lparr>shininess := s\<rparr>\<rparr>)
      = computePhongModel E st cameraDirection lightDirection lightColor hitInfo"
    by (simp add: computePhongModel_def sampleMaterialKd_shininess)
  from a b c show ?thesis by blast
qed

text \<open>
  C5, as the specification states it, fails at \<open>shininess = 0\<close>: \<^verbatim>\<open>pow(0, 0)\<close> is 1,
  so the specular term is \<open>ks * lightColor\<close>. Here the normal is \<open>(0,0,1)\<close>, light and
  camera are both in the direction \<open>(1,0,0)\<close>, so \<open>dot(N, H) = 0\<close> and \<open>dot(N, L) = 0\<close>:
  the diffuse term is zero and the result is \<open>(1,1,1)\<close>.
\<close>

theorem computeBlinnPhongModel_shininess_zero_counterexample:
  "0 \<le> shininess (material hitShiny)
   \<and> dot (normalize_vec (normal hitShiny))
        (normalize_vec (normalize_vec (Vec3 1 0 0) + normalize_vec (Vec3 1 0 0))) \<le> 0
   \<and> computeBlinnPhongModel (collab0 (\<lambda>r. None)) (state0 features0 []) (Vec3 1 0 0) (Vec3 1 0 0)
        (Vec3 1 1 1) hitShiny
     \<noteq> vscale (sampleMaterialKd (collab0 (\<lambda>r. None)) (state0 features0 []) hitShiny * Vec3 1 1 1)
         (max 0 (dot (normalize_vec (normal hitShiny)) (normalize_vec (Vec3 1 0 0))))"
  by (simp add: computeBlinnPhongModel_def Let_def sampleMaterialKd_def hitShiny_def
      materialShiny_def scene_defs normalize_vec_def dot_def glm_max_def glm_pow_def vec3_ops)

text \<open>
  C5, amended. For every input with \<open>dot(N, H) \<le> 0\<close> and every shininess above
  zero, the specular term of \<open>computeBlinnPhongModel\<close> is zero: the result is the
  diffuse term \<open>kd * lightColor * max(0, dot(N, L))\<close> alone. The vectors that are
  normalised are not zero (for a zero vector \<open>dot(N, H)\<close> is NaN in the source and
  the premise \<open>dot(N, H) \<le> 0\<close> is false).
\<close>

theorem computeBlinnPhongModel_specular_zero:
  assumes "normal hitInfo \<noteq> 0" and "lightDirection \<noteq> 0" and "cameraDirection \<noteq> 0"
    and "normalize_vec lightDirection + normalize_vec cameraDirection \<noteq> 0"
    and "0 < shininess (material hitInfo)"
    and "dot (normalize_vec (normal hitInfo))
           (normalize_vec (normalize_vec lightDirection + normalize_vec cameraDirection)) \<le> 0"
  shows "computeBlinnPhongModel E st cameraDirection lightDirection lightColor hitInfo =
     vscale (sampleMaterialKd E st hitInfo * lightColor)
       (max 0 (dot (normalize_vec (normal hitInfo)) (normalize_vec lightDirection)))"
  using assms(5,6)
  by (simp add: computeBlinnPhongModel_def Let_def glm_max_max max.commute glm_pow_def
      max_absorb1 vec3_ops)

theorem computeBlinnPhongModel_specular_zero_witness:
  "normal hit0 \<noteq> 0 \<and> Vec3 1 0 0 \<noteq> 0
   \<and> normalize_vec (Vec3 1 0 0) + normalize_vec (Vec3 1 0 0) \<noteq> 0
   \<and> 0 < shininess (material (hit0\<lparr>material := material0\<lparr>ks := Vec3 1 1 1\<rparr>\<rparr>))
   \<and> dot (normalize_vec (normal hit0)) (normalize_vec (normalize_vec (Vec3 1 0 0) + normalize_vec (Vec3 1 0 0)))
        \<le> 0
   \<and> computeBlinnPhongModel (collab0 (\<lambda>r. None)) (state0 features0 []) (Vec3 1 0 0) (Vec3 1 0 0)
        (Vec3 1 1 1) (hit0\<lparr>material := material0\<lparr>ks := Vec3 1 1 1\<rparr>\<rparr>) = Vec3 0 0 0"
proof -
  have n: "normal (hit0\<lparr>material := material0\<lparr>ks := Vec3 1 1 1\<rparr>\<rparr>) \<noteq> 0"
    and v: "Vec3 1 0 0 \<noteq> 0"
    and h: "normalize_vec (Vec3 1 0 0) + normalize_vec (Vec3 1 0 0) \<noteq> 0"
    and s: "0 < shininess (material (hit0\<lparr>material := material0\<lparr>ks := Vec3 1 1 1\<rparr>\<rparr>))"
    and d: "dot (normalize_vec (normal (hit0\<lparr>material := material0\<lparr>ks := Vec3 1 1 1\<rparr>\<rparr>)))
        (normalize_vec (normalize_vec (Vec3 1 0 0) + normalize_vec (Vec3 1 0 0))) \<le> 0"
    by (simp_all add: scene_defs normalize_vec_def dot_def vec3_ops)
  show ?thesis
    using n v h s d computeBlinnPhongModel_specular_zero [OF n v v h s d,
        of "collab0 (\<lambda>r. None)" "state0 features0 []" "Vec3 1 1 1"]
    by (simp add: scene_defs sampleMaterialKd_def normalize_vec_def dot_def vec3_ops)
qed

section \<open>Gradient sampler\<close>

lemma mix_end: "mix a b 1 = b"
  by (simp add: mix_def vec3_ops)

lemma sorted_comp_t_less:
  "sorted_wrt (<) (map comp_t cs) \<Longrightarrow> i < j \<Longrightarrow> j < length cs
    \<Longrightarrow> comp_t (cs ! i) < comp_t (cs ! j)"
  by (auto simp add: sorted_wrt_iff_nth_less)

lemma sorted_comp_t_le:
  "sorted_wrt (<) (map comp_t cs) \<Longrightarrow> i \<le> j \<Longrightarrow> j < length cs
    \<Longrightarrow> comp_t (cs ! i) \<le> comp_t (cs ! j)"
  using sorted_comp_t_less [of cs i j] by (cases "i = j") auto

text \<open>The search loop stops at the bracket \<open>t\<^sub>j < ti \<le> t\<^sub>j\<^sub>+\<^sub>1\<close>, from any start at or below \<open>j\<close>.\<close>

lemma sampleLoop_bracket:
  assumes "sorted_wrt (<) (map comp_t cs)" and "j + 1 < length cs"
    and "comp_t (cs ! j) < ti" and "ti \<le> comp_t (cs ! (j + 1))" and "i \<le> j"
  shows "sampleLoop cs ti i =
     Inr (mix (comp_color (cs ! j)) (comp_color (cs ! (j + 1)))
            ((ti - comp_t (cs ! j)) / (comp_t (cs ! (j + 1)) - comp_t (cs ! j))))"
  using assms(5)
proof (induction "j - i" arbitrary: i)
  case 0
  then have "i = j" by simp
  then show ?case
    using assms(2,3,4) by (subst sampleLoop.simps) (simp add: Let_def less_diff_conv)
next
  case (Suc n)
  then have lt: "i < j" by simp
  have "comp_t (cs ! (i + 1)) \<le> comp_t (cs ! j)"
    using sorted_comp_t_le [OF assms(1), of "i + 1" j] lt assms(2) by simp
  then have nb: "\<not> ti \<le> comp_t (cs ! (i + 1))"
    using assms(3) by simp
  have "sampleLoop cs ti i = sampleLoop cs ti (i + 1)"
    using lt assms(2) nb by (subst sampleLoop.simps) (simp add: Let_def less_diff_conv)
  moreover have "sampleLoop cs ti (i + 1) =
     Inr (mix (comp_color (cs ! j)) (comp_color (cs ! (j + 1)))
            ((ti - comp_t (cs ! j)) / (comp_t (cs ! (j + 1)) - comp_t (cs ! j))))"
    using Suc.hyps(1) [of "i + 1"] Suc.hyps(2) lt by simp
  ultimately show ?case by simp
qed

text \<open>Between the first and the last component there is a bracket.\<close>

lemma bracket_exists:
  assumes "comp_t (cs ! 0) < ti" and "ti \<le> comp_t (cs ! (length cs - 1))" and "2 \<le> length cs"
  shows "\<exists>j. j + 1 < length cs \<and> comp_t (cs ! j) < ti \<and> ti \<le> comp_t (cs ! (j + 1))"
proof -
  define k where "k = (LEAST k. k < length cs \<and> ti \<le> comp_t (cs ! k))"
  have ex: "length cs - 1 < length cs \<and> ti \<le> comp_t (cs ! (length cs - 1))"
    using assms by simp
  have kp: "k < length cs \<and> ti \<le> comp_t (cs ! k)"
    unfolding k_def using ex by (rule LeastI)
  have k0: "k \<noteq> 0"
    using kp assms(1) by (cases "k = 0") auto
  have "\<not> (k - 1 < length cs \<and> ti \<le> comp_t (cs ! (k - 1)))"
    using not_less_Least [of "k - 1" "\<lambda>k. k < length cs \<and> ti \<le> comp_t (cs ! k)"] k0
    unfolding k_def [symmetric] by simp
  moreover have "k - 1 < length cs"
    using kp by linarith
  ultimately have "comp_t (cs ! (k - 1)) < ti"
    by (simp add: not_le)
  then show ?thesis
    using kp k0 by (intro exI [of _ "k - 1"]) simp
qed

text \<open>
  C6. For a gradient of at least two components in strictly ascending order of
  \<open>t\<close>, \<open>LinearGradient::sample(ti)\<close> returns the colour of the first component
  when \<open>ti\<close> is at most the smallest \<open>t\<close>, the colour of the last component when
  \<open>ti\<close> is at least the largest \<open>t\<close>, the exact colour of a component whose \<open>t\<close>
  is \<open>ti\<close>, and otherwise \<open>mix(colorA, colorB, (ti - ta) / (tb - ta))\<close> for the
  two components \<open>a\<close>, \<open>b\<close> that bracket \<open>ti\<close>. No assertion fails.
\<close>

theorem LinearGradient_sample_sorted:
  assumes "2 \<le> length cs" and "sorted_wrt (<) (map comp_t cs)"
  shows "(ti \<le> comp_t (hd cs) \<longrightarrow> LinearGradient_sample cs ti = Inr (comp_color (hd cs)))
   \<and> (comp_t (last cs) \<le> ti \<longrightarrow> LinearGradient_sample cs ti = Inr (comp_color (last cs)))
   \<and> (\<forall>i < length cs. comp_t (cs ! i) = ti \<longrightarrow>
         LinearGradient_sample cs ti = Inr (comp_color (cs ! i)))
   \<and> (\<forall>i. i + 1 < length cs \<and> comp_t (cs ! i) < ti \<and> ti < comp_t (cs ! (i + 1)) \<longrightarrow>
         LinearGradient_sample cs ti =
           Inr (mix (comp_color (cs ! i)) (comp_color (cs ! (i + 1)))
                  ((ti - comp_t (cs ! i)) / (comp_t (cs ! (i + 1)) - comp_t (cs ! i)))))"
proof -
  have ne: "cs \<noteq> []" using assms(1) by auto
  have hd: "hd cs = cs ! 0" using ne by (simp add: hd_conv_nth)
  have last: "last cs = cs ! (length cs - 1)" using ne by (simp add: last_conv_nth)
  have first_last: "comp_t (cs ! 0) < comp_t (cs ! (length cs - 1))"
    using sorted_comp_t_less [OF assms(2), of 0 "length cs - 1"] assms(1) by simp
  have a: "ti \<le> comp_t (hd cs) \<longrightarrow> LinearGradient_sample cs ti = Inr (comp_color (hd cs))"
    using assms(1) by (simp add: LinearGradient_sample_def)
  have b: "comp_t (last cs) \<le> ti \<longrightarrow> LinearGradient_sample cs ti = Inr (comp_color (last cs))"
    using assms(1) first_last by (simp add: LinearGradient_sample_def hd last)
  have d: "LinearGradient_sample cs ti =
           Inr (mix (comp_color (cs ! i)) (comp_color (cs ! (i + 1)))
                  ((ti - comp_t (cs ! i)) / (comp_t (cs ! (i + 1)) - comp_t (cs ! i))))"
    if i: "i + 1 < length cs" and lo: "comp_t (cs ! i) < ti" and hi: "ti \<le> comp_t (cs ! (i + 1))"
      and nl: "ti < comp_t (cs ! (length cs - 1))"
    for i
  proof -
    have "comp_t (cs ! 0) \<le> comp_t (cs ! i)"
      using sorted_comp_t_le [OF assms(2), of 0 i] i by simp
    then have "\<not> ti \<le> comp_t (hd cs)" using lo hd by simp
    moreover have "\<not> comp_t (last cs) \<le> ti" using nl last by simp
    ultimately show ?thesis
      using assms(1) sampleLoop_bracket [OF assms(2) i lo hi, of 0]
      by (simp add: LinearGradient_sample_def)
  qed
  have c: "LinearGradient_sample cs ti = Inr (comp_color (cs ! i))"
    if i: "i < length cs" and eq: "comp_t (cs ! i) = ti" for i
  proof -
    consider "i = 0" | "i = length cs - 1" | "0 < i" "i + 1 < length cs"
      using i by linarith
    then show ?thesis
    proof cases
      case 1
      then show ?thesis using a eq hd by simp
    next
      case 2
      then show ?thesis using b eq last by simp
    next
      case 3
      have lo: "comp_t (cs ! (i - 1)) < ti"
        using sorted_comp_t_less [OF assms(2), of "i - 1" i] 3 i eq by simp
      have nl: "ti < comp_t (cs ! (length cs - 1))"
        using sorted_comp_t_less [OF assms(2), of i "length cs - 1"] 3 eq by simp
      have "LinearGradient_sample cs ti =
           Inr (mix (comp_color (cs ! (i - 1))) (comp_color (cs ! (i - 1 + 1)))
                  ((ti - comp_t (cs ! (i - 1)))
                    / (comp_t (cs ! (i - 1 + 1)) - comp_t (cs ! (i - 1)))))"
        using d [of "i - 1"] 3 i lo nl eq by simp
      then show ?thesis
        using 3 lo eq by (simp add: mix_end)
    qed
  qed
  have e: "LinearGradient_sample cs ti =
           Inr (mix (comp_color (cs ! i)) (comp_color (cs ! (i + 1)))
                  ((ti - comp_t (cs ! i)) / (comp_t (cs ! (i + 1)) - comp_t (cs ! i))))"
    if i: "i + 1 < length cs" and lo: "comp_t (cs ! i) < ti" and hi: "ti < comp_t (cs ! (i + 1))"
    for i
  proof -
    have "comp_t (cs ! (i + 1)) \<le> comp_t (cs ! (length cs - 1))"
      using sorted_comp_t_le [OF assms(2), of "i + 1" "length cs - 1"] i by simp
    then show ?thesis
      using d [OF i lo] hi by simp
  qed
  from a b c e show ?thesis by blast
qed

theorem LinearGradient_sample_sorted_witness:
  "2 \<le> length gradient \<and> sorted_wrt (<) (map comp_t gradient)
   \<and> LinearGradient_sample gradient 0 = Inr (Vec3 (215 / 256) (210 / 256) (203 / 256))
   \<and> LinearGradient_sample gradient 1 = Inr (Vec3 (170 / 256) (170 / 256) (170 / 256))
   \<and> LinearGradient_sample gradient (1 / 2) = Inr (Vec3 (145 / 256) (170 / 256) (175 / 256))
   \<and> LinearGradient_sample gradient (3 / 10) =
       Inr (mix (Vec3 (250 / 256) (250 / 256) (240 / 256)) (Vec3 (145 / 256) (170 / 256) (175 / 256))
              ((3 / 10 - 22 / 100) / (1 / 2 - 22 / 100)))"
proof -
  have l: "2 \<le> length gradient" and s: "sorted_wrt (<) (map comp_t gradient)"
    by (simp_all add: gradient_def)
  show ?thesis
    using l s LinearGradient_sample_sorted [OF l s, of 0]
      LinearGradient_sample_sorted [OF l s, of 1]
      LinearGradient_sample_sorted [OF l s, of "1 / 2", THEN conjunct2, THEN conjunct2,
        THEN conjunct1, rule_format, of 2]
      LinearGradient_sample_sorted [OF l s, of "3 / 10", THEN conjunct2, THEN conjunct2,
        THEN conjunct2, rule_format, of 1]
    by (simp add: gradient_def)
qed

text \<open>With at least two components in strictly ascending order no assertion fails,
  so the hard-coded gradient of \<open>computeShading\<close> always gives a colour.\<close>

lemma LinearGradient_sample_defined:
  assumes "2 \<le> length cs" and "sorted_wrt (<) (map comp_t cs)"
  shows "\<exists>c. LinearGradient_sample cs ti = Inr c"
proof -
  have ne: "cs \<noteq> []" using assms(1) by auto
  have hd: "hd cs = cs ! 0" using ne by (simp add: hd_conv_nth)
  have last: "last cs = cs ! (length cs - 1)" using ne by (simp add: last_conv_nth)
  show ?thesis
  proof (cases "ti \<le> comp_t (hd cs) \<or> comp_t (last cs) \<le> ti")
    case True
    then show ?thesis using assms(1) by (auto simp add: LinearGradient_sample_def)
  next
    case False
    then obtain j where j: "j + 1 < length cs" "comp_t (cs ! j) < ti" "ti \<le> comp_t (cs ! (j + 1))"
      using bracket_exists [of cs ti] assms(1) hd last by auto
    show ?thesis
      using False assms(1) sampleLoop_bracket [OF assms(2) j, of 0]
      by (simp add: LinearGradient_sample_def)
  qed
qed

lemma gradient_sorted: "2 \<le> length gradient \<and> sorted_wrt (<) (map comp_t gradient)"
  by (simp add: gradient_def)

lemma gradient_sample_defined: "\<exists>c. LinearGradient_sample gradient ti = Inr c"
  using LinearGradient_sample_defined gradient_sorted by blast

section \<open>Frames: what the lighting functions leave unchanged\<close>

lemma sameScene_refl: "sameScene st st"
  by (simp add: sameScene_def)

lemma sameScene_trans: "sameScene a b \<Longrightarrow> sameScene b c \<Longrightarrow> sameScene a c"
  by (simp add: sameScene_def)

lemma lightFrame_refl: "lightFrame st st"
  by (simp add: lightFrame_def sameScene_def)

lemma lightFrame_trans: "lightFrame a b \<Longrightarrow> lightFrame b c \<Longrightarrow> lightFrame a c"
  by (simp add: lightFrame_def sameScene_def)

lemma lightFrame_upd:
  "lightFrame st (st\<lparr>sampler := s\<rparr>)"
  "lightFrame st (st\<lparr>bvhQueries := q\<rparr>)"
  "lightFrame st (drawRay r c st)"
  by (simp_all add: lightFrame_def sameScene_def drawRay_def)

lemma visibilityOfLightSampleBinary_frame:
  "lightFrame st (snd (visibilityOfLightSampleBinary E st lp lc ray hitInfo))"
  "sampler (snd (visibilityOfLightSampleBinary E st lp lc ray hitInfo)) = sampler st"
  by (simp_all add: visibilityOfLightSampleBinary_eq lightFrame_def sameScene_def drawRay_def
      split: option.splits)

lemma visibilityOfLightSampleTransparency_frame:
  "lightFrame st (snd (visibilityOfLightSampleTransparency E st lp lc ray hitInfo))"
  "sampler (snd (visibilityOfLightSampleTransparency E st lp lc ray hitInfo)) = sampler st"
  by (simp_all add: visibilityOfLightSampleTransparency_eq lightFrame_def sameScene_def
      split: option.splits)

lemma computeContributionPointLight_frame:
  "lightFrame st (snd (computeContributionPointLight E st light ray hitInfo))"
  by (simp add: computeContributionPointLight_eq visibilityOfLightSampleBinary_eq
      visibilityOfLightSampleTransparency_eq lightFrame_def sameScene_def drawRay_def
      split: option.splits)

lemma computeShading_after_binary:
  "computeShading E (snd (visibilityOfLightSampleBinary E' st lp lc r h)) cam l c hitInfo =
     computeShading E st cam l c hitInfo"
  using visibilityOfLightSampleBinary_frame(1) [of st E' lp lc r h]
  by (intro computeShading_features) (simp add: lightFrame_def sameScene_def)

lemma computeShading_drawRay:
  "computeShading E (drawRay r c' st) cam l c hitInfo = computeShading E st cam l c hitInfo"
  by (intro computeShading_features) (simp add: drawRay_def)

text \<open>One sample of an area light: what its colour depends on, and what it changes.\<close>

lemma segmentLightSample_eq:
  "segmentLightSample E st light ray hitInfo u =
     (let lp = fst (sampleSegmentLight u light);
          lc = snd (sampleSegmentLight u light);
          ld = normalize_vec (lp - (origin ray + vscale (direction ray) (t ray)));
          shadowRay = \<lparr>origin = origin ray + vscale (direction ray) (t ray)
                                  + scalev (1 / 1000) (normal hitInfo),
                       direction = ld, t = FLT_MAX\<rparr>;
          r = visibilityOfLightSampleBinary E st lp lc shadowRay hitInfo
      in (if fst r then computeShading E st (- direction ray) ld lc hitInfo else 0, snd r))"
  by (simp add: segmentLightSample_def Let_def split_def computeShading_after_binary)

lemma parallelogramLightSample_eq:
  "parallelogramLightSample E st light ray hitInfo u =
     (let lp = fst (sampleParallelogramLight u light);
          lc = snd (sampleParallelogramLight u light);
          ip = vadds (origin ray + vscale (direction ray) (t ray)) (1 / 1000);
          ld = normalize_vec (lp - ip);
          shadowRay = \<lparr>origin = ip, direction = ld, t = FLT_MAX\<rparr>;
          r = visibilityOfLightSampleBinary E st lp lc shadowRay hitInfo
      in (if fst r then computeShading E st (- direction ray) ld lc hitInfo else 0,
          drawRay shadowRay (if fst r then Vec3 0 0 1 else Vec3 0 1 0) (snd r)))"
  by (simp add: parallelogramLightSample_def Let_def split_def computeShading_after_binary
      computeShading_drawRay)

lemma segmentLightSample_frame:
  "lightFrame st (snd (segmentLightSample E st light ray hitInfo u))"
  "sampler (snd (segmentLightSample E st light ray hitInfo u)) = sampler st"
  by (simp_all add: segmentLightSample_eq Let_def visibilityOfLightSampleBinary_frame)

lemma parallelogramLightSample_frame:
  "lightFrame st (snd (parallelogramLightSample E st light ray hitInfo u))"
  "sampler (snd (parallelogramLightSample E st light ray hitInfo u)) = sampler st"
  using visibilityOfLightSampleBinary_frame [where st = st and E = E]
  by (simp_all add: parallelogramLightSample_eq Let_def lightFrame_def sameScene_def drawRay_def)

text \<open>The colour of a sample depends on the state through the configuration only.\<close>

lemma visibilityOfLightSampleBinary_fst:
  "fst (visibilityOfLightSampleBinary E st' lp lc ray hitInfo) =
     fst (visibilityOfLightSampleBinary E st lp lc ray hitInfo)"
  by (simp add: visibilityOfLightSampleBinary_eq split: option.splits)

lemma segmentLightSample_fst:
  "features st' = features st \<Longrightarrow>
   fst (segmentLightSample E st' light ray hitInfo u) =
     fst (segmentLightSample E st light ray hitInfo u)"
  using visibilityOfLightSampleBinary_fst [of E st' _ _ _ _ st]
  by (simp add: segmentLightSample_eq Let_def computeShading_features [of st' st])

lemma parallelogramLightSample_fst:
  "features st' = features st \<Longrightarrow>
   fst (parallelogramLightSample E st' light ray hitInfo u) =
     fst (parallelogramLightSample E st light ray hitInfo u)"
  using visibilityOfLightSampleBinary_fst [of E st' _ _ _ _ st]
  by (simp add: parallelogramLightSample_eq Let_def computeShading_features [of st' st])

lemma samplerAfter1d_Suc:
  "samplerAfter1d E (snd (next_1d E s)) i = samplerAfter1d E s (Suc i)"
  using funpow_swap1 [of "\<lambda>s. snd (next_1d E s)" i s] by (simp add: samplerAfter1d_def)

lemma samplerAfter2d_Suc:
  "samplerAfter2d E (snd (next_2d E s)) i = samplerAfter2d E s (Suc i)"
  using funpow_swap1 [of "\<lambda>s. snd (next_2d E s)" i s] by (simp add: samplerAfter2d_def)

lemma segmentLightLoop_sum:
  "fst (segmentLightLoop E light ray hitInfo n acc st) =
      acc + (\<Sum>i<n. fst (segmentLightSample E st light ray hitInfo (draw1d E (sampler st) i)))
   \<and> sampler (snd (segmentLightLoop E light ray hitInfo n acc st)) =
      samplerAfter1d E (sampler st) n
   \<and> lightFrame st (snd (segmentLightLoop E light ray hitInfo n acc st))"
proof (induction n arbitrary: acc st)
  case 0
  show ?case by (simp add: samplerAfter1d_def lightFrame_refl)
next
  case (Suc n)
  define u where "u = fst (next_1d E (sampler st))"
  define smp where "smp = snd (next_1d E (sampler st))"
  define c where "c = fst (segmentLightSample E (st\<lparr>sampler := smp\<rparr>) light ray hitInfo u)"
  define st1 where "st1 = snd (segmentLightSample E (st\<lparr>sampler := smp\<rparr>) light ray hitInfo u)"
  have step: "segmentLightLoop E light ray hitInfo (Suc n) acc st =
      segmentLightLoop E light ray hitInfo n (acc + c) st1"
    by (simp add: u_def smp_def c_def st1_def split_def Let_def)
  have fr: "lightFrame st st1"
    unfolding st1_def
    using lightFrame_trans [OF lightFrame_upd(1) segmentLightSample_frame(1)] .
  have feat: "features st1 = features st"
    using fr by (simp add: lightFrame_def sameScene_def)
  have smp1: "sampler st1 = smp"
    by (simp add: st1_def segmentLightSample_frame(2))
  have c0: "c = fst (segmentLightSample E st light ray hitInfo (draw1d E (sampler st) 0))"
    unfolding c_def u_def
    using segmentLightSample_fst [of "st\<lparr>sampler := smp\<rparr>" st]
    by (simp add: draw1d_def samplerAfter1d_def)
  have ci: "fst (segmentLightSample E st1 light ray hitInfo (draw1d E (sampler st1) i)) =
      fst (segmentLightSample E st light ray hitInfo (draw1d E (sampler st) (Suc i)))" for i
    using segmentLightSample_fst [OF feat]
    by (simp add: smp1 smp_def draw1d_def samplerAfter1d_Suc)
  have "fst (segmentLightLoop E light ray hitInfo (Suc n) acc st) =
      acc + c + (\<Sum>i<n. fst (segmentLightSample E st light ray hitInfo
                              (draw1d E (sampler st) (Suc i))))"
    unfolding step using Suc.IH [of "acc + c" st1] by (simp add: ci)
  then have a: "fst (segmentLightLoop E light ray hitInfo (Suc n) acc st) =
      acc + (\<Sum>i<Suc n. fst (segmentLightSample E st light ray hitInfo
                              (draw1d E (sampler st) i)))"
    by (simp only: sum.lessThan_Suc_shift c0 add.assoc)
  have b: "sampler (snd (segmentLightLoop E light ray hitInfo (Suc n) acc st)) =
      samplerAfter1d E (sampler st) (Suc n)"
    unfolding step using Suc.IH [of "acc + c" st1] by (simp add: smp1 smp_def samplerAfter1d_Suc)
  have d: "lightFrame st (snd (segmentLightLoop E light ray hitInfo (Suc n) acc st))"
    unfolding step using Suc.IH [of "acc + c" st1] fr lightFrame_trans by blast
  from a b d show ?case by blast
qed

lemma parallelogramLightLoop_sum:
  "fst (parallelogramLightLoop E light ray hitInfo n acc st) =
      acc + (\<Sum>i<n. fst (parallelogramLightSample E st light ray hitInfo (draw2d E (sampler st) i)))
   \<and> sampler (snd (parallelogramLightLoop E light ray hitInfo n acc st)) =
      samplerAfter2d E (sampler st) n
   \<and> lightFrame st (snd (parallelogramLightLoop E light ray hitInfo n acc st))"
proof (induction n arbitrary: acc st)
  case 0
  show ?case by (simp add: samplerAfter2d_def lightFrame_refl)
next
  case (Suc n)
  define u where "u = fst (next_2d E (sampler st))"
  define smp where "smp = snd (next_2d E (sampler st))"
  define c where "c = fst (parallelogramLightSample E (st\<lparr>sampler := smp\<rparr>) light ray hitInfo u)"
  define st1 where "st1 = snd (parallelogramLightSample E (st\<lparr>sampler := smp\<rparr>) light ray hitInfo u)"
  have step: "parallelogramLightLoop E light ray hitInfo (Suc n) acc st =
      parallelogramLightLoop E light ray hitInfo n (acc + c) st1"
    by (simp add: u_def smp_def c_def st1_def split_def Let_def)
  have fr: "lightFrame st st1"
    unfolding st1_def
    using lightFrame_trans [OF lightFrame_upd(1) parallelogramLightSample_frame(1)] .
  have feat: "features st1 = features st"
    using fr by (simp add: lightFrame_def sameScene_def)
  have smp1: "sampler st1 = smp"
    by (simp add: st1_def parallelogramLightSample_frame(2))
  have c0: "c = fst (parallelogramLightSample E st light ray hitInfo (draw2d E (sampler st) 0))"
    unfolding c_def u_def
    using parallelogramLightSample_fst [of "st\<lparr>sampler := smp\<rparr>" st]
    by (simp add: draw2d_def samplerAfter2d_def)
  have ci: "fst (parallelogramLightSample E st1 light ray hitInfo (draw2d E (sampler st1) i)) =
      fst (parallelogramLightSample E st light ray hitInfo (draw2d E (sampler st) (Suc i)))" for i
    using parallelogramLightSample_fst [OF feat]
    by (simp add: smp1 smp_def draw2d_def samplerAfter2d_Suc)
  have "fst (parallelogramLightLoop E light ray hitInfo (Suc n) acc st) =
      acc + c + (\<Sum>i<n. fst (parallelogramLightSample E st light ray hitInfo
                              (draw2d E (sampler st) (Suc i))))"
    unfolding step using Suc.IH [of "acc + c" st1] by (simp add: ci)
  then have a: "fst (parallelogramLightLoop E light ray hitInfo (Suc n) acc st) =
      acc + (\<Sum>i<Suc n. fst (parallelogramLightSample E st light ray hitInfo
                              (draw2d E (sampler st) i)))"
    by (simp only: sum.lessThan_Suc_shift c0 add.assoc)
  have b: "sampler (snd (parallelogramLightLoop E light ray hitInfo (Suc n) acc st)) =
      samplerAfter2d E (sampler st) (Suc n)"
    unfolding step using Suc.IH [of "acc + c" st1] by (simp add: smp1 smp_def samplerAfter2d_Suc)
  have d: "lightFrame st (snd (parallelogramLightLoop E light ray hitInfo (Suc n) acc st))"
    unfolding step using Suc.IH [of "acc + c" st1] fr lightFrame_trans by blast
  from a b d show ?case by blast
qed

section \<open>Area lights\<close>

text \<open>
  C9. For a segment light and for a parallelogram light the contribution is the
  sum of the contributions of \<open>numSamples\<close> light samples, the sample number \<open>i\<close>
  made from the draw number \<open>i\<close> of the sampler, divided by \<open>numSamples\<close>; the
  sampler has then made exactly \<open>numSamples\<close> draws. With \<open>numSamples = 0\<close> the
  contribution is the zero vector and the state, the sampler included, is
  unchanged. The functions are total: no error is raised.
\<close>

theorem computeContribution_area_lights:
  "fst (computeContributionSegmentLight E st sl ray hitInfo n) =
     (if 0 < n
      then vdivs (\<Sum>i<n. fst (segmentLightSample E st sl ray hitInfo (draw1d E (sampler st) i)))
             (real n)
      else 0)
   \<and> sampler (snd (computeContributionSegmentLight E st sl ray hitInfo n)) =
       samplerAfter1d E (sampler st) n
   \<and> computeContributionSegmentLight E st sl ray hitInfo 0 = (0, st)
   \<and> fst (computeContributionParallelogramLight E st pl ray hitInfo n) =
     (if 0 < n
      then vdivs (\<Sum>i<n. fst (parallelogramLightSample E st pl ray hitInfo
                                 (draw2d E (sampler st) i))) (real n)
      else 0)
   \<and> sampler (snd (computeContributionParallelogramLight E st pl ray hitInfo n)) =
       samplerAfter2d E (sampler st) n
   \<and> computeContributionParallelogramLight E st pl ray hitInfo 0 = (0, st)"
proof -
  have z: "splat 0 = (0 :: vec3)"
    by (simp add: vec3_ops)
  have a: "fst (computeContributionSegmentLight E st sl ray hitInfo n) =
     (if 0 < n
      then vdivs (\<Sum>i<n. fst (segmentLightSample E st sl ray hitInfo (draw1d E (sampler st) i)))
             (real n)
      else 0)"
    using segmentLightLoop_sum [of E sl ray hitInfo n 0 st]
    by (simp add: computeContributionSegmentLight_def split_def Let_def z)
  have b: "sampler (snd (computeContributionSegmentLight E st sl ray hitInfo n)) =
       samplerAfter1d E (sampler st) n"
    using segmentLightLoop_sum [of E sl ray hitInfo n 0 st]
    by (simp add: computeContributionSegmentLight_def split_def Let_def z)
  have c: "computeContributionSegmentLight E st sl ray hitInfo 0 = (0, st)"
    by (simp add: computeContributionSegmentLight_def z)
  have d: "fst (computeContributionParallelogramLight E st pl ray hitInfo n) =
     (if 0 < n
      then vdivs (\<Sum>i<n. fst (parallelogramLightSample E st pl ray hitInfo
                                 (draw2d E (sampler st) i))) (real n)
      else 0)"
    using parallelogramLightLoop_sum [of E pl ray hitInfo n 0 st]
    by (simp add: computeContributionParallelogramLight_def split_def Let_def z)
  have e: "sampler (snd (computeContributionParallelogramLight E st pl ray hitInfo n)) =
       samplerAfter2d E (sampler st) n"
    using parallelogramLightLoop_sum [of E pl ray hitInfo n 0 st]
    by (simp add: computeContributionParallelogramLight_def split_def Let_def z)
  have f: "computeContributionParallelogramLight E st pl ray hitInfo 0 = (0, st)"
    by (simp add: computeContributionParallelogramLight_def z)
  from a b c d e f show ?thesis by blast
qed

theorem computeContribution_area_lights_witness:
  "fst (computeContributionSegmentLight (collab0 (\<lambda>r. None)) (state0 features0 [])
        segmentLight0 ray0 hit0 2) = Vec3 (1 / 4) (1 / 4) (1 / 4)
   \<and> sampler (snd (computeContributionSegmentLight (collab0 (\<lambda>r. None)) (state0 features0 [])
        segmentLight0 ray0 hit0 2)) = 2
   \<and> computeContributionSegmentLight (collab0 (\<lambda>r. None)) (state0 features0 [])
        segmentLight0 ray0 hit0 0 = (0, state0 features0 [])
   \<and> fst (computeContributionParallelogramLight (collab0 (\<lambda>r. None)) (state0 features0 [])
        parallelogramLight0 ray0 hit0 2) = Vec3 (3 / 8) (3 / 8) (3 / 8)
   \<and> sampler (snd (computeContributionParallelogramLight (collab0 (\<lambda>r. None))
        (state0 features0 []) parallelogramLight0 ray0 hit0 2)) = 2"
  using computeContribution_area_lights [of "collab0 (\<lambda>r. None)" "state0 features0 []"
      segmentLight0 ray0 hit0 2 parallelogramLight0]
    computeContribution_area_lights [of "collab0 (\<lambda>r. None)" "state0 features0 []"
      segmentLight0 ray0 hit0 0 parallelogramLight0]
  by (simp add: segmentLightSample_eq parallelogramLightSample_eq
      visibilityOfLightSampleBinary_eq computeShading_def sampleMaterialKd_def
      sampleSegmentLight_def sampleParallelogramLight_def mix_def
      draw1d_def draw2d_def samplerAfter1d_def samplerAfter2d_def
      segmentLight0_def parallelogramLight0_def scene_defs vec3_ops numeral_2_eq_2 Let_def)

lemma computeContributionSegmentLight_frame:
  "lightFrame st (snd (computeContributionSegmentLight E st sl ray hitInfo n))"
  using segmentLightLoop_sum [of E sl ray hitInfo n "splat 0" st]
  by (simp add: computeContributionSegmentLight_def split_def Let_def)

lemma computeContributionParallelogramLight_frame:
  "lightFrame st (snd (computeContributionParallelogramLight E st pl ray hitInfo n))"
  using parallelogramLightLoop_sum [of E pl ray hitInfo n "splat 0" st]
  by (simp add: computeContributionParallelogramLight_def split_def Let_def)

lemma lightLoop_frame: "lightFrame st (snd (lightLoop E ray hitInfo ls Lo st))"
proof (induction ls arbitrary: Lo st)
  case Nil
  show ?case by (simp add: lightFrame_refl)
next
  case (Cons l ls)
  show ?case
  proof (cases l)
    case (LPoint x)
    then show ?thesis
      using lightFrame_trans [OF computeContributionPointLight_frame Cons.IH]
      by (simp add: split_def Let_def)
  next
    case (LSegment x)
    then show ?thesis
      using lightFrame_trans [OF computeContributionSegmentLight_frame Cons.IH]
      by (simp add: split_def Let_def)
  next
    case (LParallelogram x)
    then show ?thesis
      using lightFrame_trans [OF computeContributionParallelogramLight_frame Cons.IH]
      by (simp add: split_def Let_def)
  qed
qed

lemma computeLightContribution_frame:
  "lightFrame st (snd (computeLightContribution E st ray hitInfo))"
  by (simp add: computeLightContribution_def lightLoop_frame)

section \<open>Recursive ray renderer\<close>

text \<open>The recursive equations are unfolded by hand in the proofs below.\<close>

declare renderRay.simps [simp del] renderRaySpecularComponent.simps [simp del]
  renderRayGlossyComponent.simps [simp del] renderRayTransparentComponent.simps [simp del]

lemma callsWithin_refl: "callsWithin lo hi st st"
  by (simp add: callsWithin_def sameScene_def)

lemma callsWithin_trans:
  assumes "callsWithin lo hi a b" and "callsWithin lo hi b c"
  shows "callsWithin lo hi a c"
proof -
  obtain n1 where n1: "renderCalls b = renderCalls a @ n1" "\<forall>k \<in> set n1. lo \<le> k \<and> k \<le> hi"
    using assms(1) by (auto simp add: callsWithin_def)
  obtain n2 where n2: "renderCalls c = renderCalls b @ n2" "\<forall>k \<in> set n2. lo \<le> k \<and> k \<le> hi"
    using assms(2) by (auto simp add: callsWithin_def)
  have "renderCalls c = renderCalls a @ (n1 @ n2) \<and> (\<forall>k \<in> set (n1 @ n2). lo \<le> k \<and> k \<le> hi)"
    using n1 n2 by auto
  then show ?thesis
    using assms sameScene_trans unfolding callsWithin_def by blast
qed

lemma lightFrame_callsWithin: "lightFrame a b \<Longrightarrow> callsWithin lo hi a b"
  by (simp add: lightFrame_def callsWithin_def)

lemma generateReflectionRay_frame:
  "lightFrame st (snd (generateReflectionRay ray hitInfo st))"
  by (simp add: generateReflectionRay_def Let_def lightFrame_def sameScene_def drawRay_def)

lemma generatePassthroughRay_frame:
  "lightFrame st (snd (generatePassthroughRay ray hitInfo st))"
  by (simp add: generatePassthroughRay_def Let_def lightFrame_def sameScene_def drawRay_def)

text \<open>The components and the list of glossy rays only call \<open>renderRay\<close>, one level deeper.\<close>

lemma renderRayEach_calls:
  assumes "\<And>st r. callsWithin lo hi st (snd (renderRay E st r d))"
  shows "callsWithin lo hi st (snd (renderRayEach E st rs d))"
proof (induction rs arbitrary: st)
  case Nil
  show ?case by (simp add: callsWithin_refl)
next
  case (Cons r rs)
  show ?case
    using callsWithin_trans [OF assms [of st r] Cons.IH [of "snd (renderRay E st r d)"]]
    by (simp add: split_def Let_def)
qed

lemma renderRaySpecularComponent_calls:
  assumes "\<And>st r. callsWithin lo hi st (snd (renderRay E st r (d + 1)))"
  shows "callsWithin lo hi st (snd (renderRaySpecularComponent E st ray hitInfo c d))"
proof -
  have "callsWithin lo hi st (snd (generateReflectionRay ray hitInfo st))"
    using generateReflectionRay_frame by (rule lightFrame_callsWithin)
  then show ?thesis
    using callsWithin_trans [OF _ assms] 
    by (simp add: renderRaySpecularComponent.simps split_def Let_def callsWithin_refl)
qed

lemma renderRayTransparentComponent_calls:
  assumes "\<And>st r. callsWithin lo hi st (snd (renderRay E st r (d + 1)))"
  shows "callsWithin lo hi st (snd (renderRayTransparentComponent E st ray hitInfo c d))"
proof -
  have "callsWithin lo hi st (snd (generatePassthroughRay ray hitInfo st))"
    using generatePassthroughRay_frame by (rule lightFrame_callsWithin)
  then show ?thesis
    using callsWithin_trans [OF _ assms] 
    by (simp add: renderRayTransparentComponent.simps split_def Let_def callsWithin_refl)
qed

lemma renderRayGlossyComponent_calls:
  assumes "\<And>st r. callsWithin lo hi st (snd (renderRay E st r (d + 1)))"
  shows "callsWithin lo hi st (snd (renderRayGlossyComponent E st ray hitInfo c d))"
proof -
  have "callsWithin lo hi st (st\<lparr>sampler := s\<rparr>)" for s
    using lightFrame_upd(1) by (rule lightFrame_callsWithin)
  then show ?thesis
    using callsWithin_trans [OF _ renderRayEach_calls [of lo hi E "d + 1", OF assms]]
    by (simp add: renderRayGlossyComponent.simps split_def Let_def)
qed

text \<open>One call of \<open>renderRay\<close>: it logs its depth, and what follows comes from the
  components, which run only below depth 6.\<close>

lemma renderRay_step:
  assumes deeper: "d < 6 \<Longrightarrow> (\<And>st r. callsWithin (d + 1) 6 st (snd (renderRay E st r (d + 1))))"
  shows "sameScene st (snd (renderRay E st ray d))
     \<and> (\<exists>new. renderCalls (snd (renderRay E st ray d)) = renderCalls st @ d # new
           \<and> (\<forall>k \<in> set new. d < k \<and> k \<le> 6))"
proof -
  define st1 where "st1 = snd (intersect E (st\<lparr>renderCalls := renderCalls st @ [d]\<rparr>) ray)"
  have st1: "sameScene st st1" "renderCalls st1 = renderCalls st @ [d]"
    by (simp_all add: st1_def sameScene_def intersect_def)
  have isect: "fst (intersect E s r) = bvh_intersect E r" for s r
    by (simp add: intersect_def)
  show ?thesis
  proof (cases "bvh_intersect E ray")
    case None
    then have "renderRay E st ray d = (sampleEnvironmentMap E ray, drawRay ray (Vec3 1 0 0) st1)"
      by (subst renderRay.simps) (simp add: isect Let_def split_def st1_def [symmetric])
    then show ?thesis
      using st1 by (simp add: drawRay_def sameScene_def)
  next
    case (Some a)
    obtain th hitInfo where a: "a = (th, hitInfo)" by (cases a)
    define ray1 where "ray1 = ray\<lparr>t := th\<rparr>"
    define Lo where "Lo = fst (computeLightContribution E st1 ray1 hitInfo)"
    define st2 where "st2 = snd (computeLightContribution E st1 ray1 hitInfo)"
    define st3 where "st3 = drawRay ray1 (splat 1) st2"
    have "lightFrame st1 st3"
      unfolding st3_def st2_def
      using lightFrame_trans [OF computeLightContribution_frame lightFrame_upd(3)] .
    then have st3: "sameScene st st3" "renderCalls st3 = renderCalls st @ [d]"
      using st1 by (simp_all add: lightFrame_def sameScene_def)
    show ?thesis
    proof (cases "d < 6")
      case False
      have "renderRay E st ray d = (Lo, st3)"
        using Some a False
        by (subst renderRay.simps)
          (simp add: isect Let_def split_def st1_def [symmetric] ray1_def [symmetric]
            Lo_def [symmetric] st2_def [symmetric] st3_def [symmetric])
      then show ?thesis
        using st3 by simp
    next
      case True
      note rec = deeper [OF True]
      define r1 where "r1 =
        (if enableReflections (features st3) \<and> \<not> enableGlossyReflection (features st3)
            \<and> ks (material hitInfo) \<noteq> splat 0
         then renderRaySpecularComponent E st3 ray1 hitInfo Lo d else (Lo, st3))"
      define r2 where "r2 =
        (if enableReflections (features (snd r1)) \<and> enableGlossyReflection (features (snd r1))
            \<and> ks (material hitInfo) \<noteq> splat 0
         then renderRayGlossyComponent E (snd r1) ray1 hitInfo (fst r1) d else r1)"
      define r3 where "r3 =
        (if enableTransparency (features (snd r2)) \<and> transparency (material hitInfo) \<noteq> 1
         then renderRayTransparentComponent E (snd r2) ray1 hitInfo (fst r2) d else r2)"
      have eq: "renderRay E st ray d = r3"
        using Some a True
        by (subst renderRay.simps)
          (simp only: isect Let_def split_def fst_conv snd_conv option.case if_True
            prod.collapse st1_def [symmetric] ray1_def [symmetric] Lo_def [symmetric]
            st2_def [symmetric] st3_def [symmetric] r1_def [symmetric] r2_def [symmetric]
            r3_def [symmetric])
      have c1: "callsWithin (d + 1) 6 st3 (snd r1)"
        unfolding r1_def
        using renderRaySpecularComponent_calls [of "d + 1" 6 E d, OF rec]
        by (simp add: callsWithin_refl)
      have c2: "callsWithin (d + 1) 6 (snd r1) (snd r2)"
        unfolding r2_def
        using renderRayGlossyComponent_calls [of "d + 1" 6 E d, OF rec]
        by (simp add: callsWithin_refl)
      have c3: "callsWithin (d + 1) 6 (snd r2) (snd r3)"
        unfolding r3_def
        using renderRayTransparentComponent_calls [of "d + 1" 6 E d, OF rec]
        by (simp add: callsWithin_refl)
      have "callsWithin (d + 1) 6 st3 (snd r3)"
        using callsWithin_trans [OF callsWithin_trans [OF c1 c2] c3] .
      then obtain new where new: "sameScene st3 (snd r3)"
          "renderCalls (snd r3) = renderCalls st3 @ new" "\<forall>k \<in> set new. d + 1 \<le> k \<and> k \<le> 6"
        by (auto simp add: callsWithin_def)
      have "sameScene st (snd r3)"
        using sameScene_trans [OF st3(1) new(1)] .
      moreover have "renderCalls (snd r3) = renderCalls st @ d # new"
        using new(2) st3(2) by simp
      moreover have "\<forall>k \<in> set new. d < k \<and> k \<le> 6"
        using new(3) by auto
      ultimately show ?thesis
        unfolding eq by blast
    qed
  qed
qed

lemma renderRay_calls:
  "sameScene st (snd (renderRay E st ray d))
     \<and> (\<exists>new. renderCalls (snd (renderRay E st ray d)) = renderCalls st @ d # new
           \<and> (\<forall>k \<in> set new. d < k \<and> k \<le> 6))"
proof (induction "nat (6 - d)" arbitrary: d st ray)
  case 0
  then have "\<not> d < 6" by simp
  then show ?case
    using renderRay_step [of d E st ray] by simp
next
  case (Suc n)
  then have lt: "d < 6" and n: "n = nat (6 - (d + 1))" by simp_all
  have "callsWithin (d + 1) 6 st' (snd (renderRay E st' r (d + 1)))" for st' r
  proof -
    obtain new where new: "sameScene st' (snd (renderRay E st' r (d + 1)))"
      "renderCalls (snd (renderRay E st' r (d + 1))) = renderCalls st' @ (d + 1) # new"
      "\<forall>k \<in> set new. d + 1 < k \<and> k \<le> 6"
      using Suc.hyps(1) [OF n, of st' r] by blast
    have "\<forall>k \<in> set ((d + 1) # new). d + 1 \<le> k \<and> k \<le> 6"
      using new(3) lt by auto
    then show ?thesis
      using new(1,2) unfolding callsWithin_def by blast
  qed
  then show ?case
    using renderRay_step [of d E st ray] by blast
qed

text \<open>
  C1. \<open>renderRay\<close> is a total function: every chain of recursive calls ends. The
  calls it makes, listed by \<open>renderCalls\<close>, are its own at \<open>rayDepth\<close> followed by
  calls at depths above \<open>rayDepth\<close> and at most 6 (the reflection, glossy and
  transparency rays, each component calling at its \<open>rayDepth + 1\<close>). At
  \<open>rayDepth \<ge> 6\<close> there is no further call. Nothing is assumed of the scene or
  of the collaborators.
\<close>

theorem renderRay_depth_bound:
  "\<exists>new. renderCalls (snd (renderRay E st ray d)) = renderCalls st @ d # new
     \<and> (\<forall>k \<in> set new. d < k \<and> k \<le> 6)
     \<and> (6 \<le> d \<longrightarrow> new = [])"
proof -
  obtain new where new: "renderCalls (snd (renderRay E st ray d)) = renderCalls st @ d # new"
      "\<forall>k \<in> set new. d < k \<and> k \<le> 6"
    using renderRay_calls [of st E ray d] by blast
  have "new = []" if "6 \<le> d"
  proof (cases new)
    case Nil
    then show ?thesis .
  next
    case (Cons k ks')
    then have "d < k \<and> k \<le> 6" using new(2) by simp
    then show ?thesis using that by simp
  qed
  then show ?thesis
    using new by blast
qed

theorem renderRay_depth_bound_witness:
  "renderCalls (snd (renderRay (collab0 (\<lambda>r. Some (1, hitMirror)))
      (state0 (features0\<lparr>enableReflections := True\<rparr>) []) ray0 0)) = [0, 1, 2, 3, 4, 5, 6]
   \<and> renderCalls (snd (renderRay (collab0 (\<lambda>r. Some (1, hitMirror)))
      (state0 (features0\<lparr>enableReflections := True\<rparr>) []) ray0 6)) = [6]"
  using renderRay_depth_bound [of "collab0 (\<lambda>r. Some (1, hitMirror))"
      "state0 (features0\<lparr>enableReflections := True\<rparr>) []" ray0 0]
    renderRay_depth_bound [of "collab0 (\<lambda>r. Some (1, hitMirror))"
      "state0 (features0\<lparr>enableReflections := True\<rparr>) []" ray0 6]
  by (simp add: renderRay.simps renderRaySpecularComponent.simps
      renderRayTransparentComponent.simps generateReflectionRay_def intersect_def
      computeLightContribution_def drawRay_def Let_def scene_defs hitMirror_def
      materialMirror_def normalize_vec_def dot_def vec3_ops)

section \<open>Batches of rays\<close>

lemma renderRaysLoop_each:
  "renderRaysLoop E rays d L st =
     (L + sum_list (fst (renderRayEach E st rays d)), snd (renderRayEach E st rays d))"
  by (induction rays arbitrary: L st) (simp_all add: split_def Let_def add.assoc)

lemma renderRayEach_replicate:
  assumes "\<forall>st'. sameScene st st' \<longrightarrow> fst (renderRay E st' ray d) = c"
  shows "fst (renderRayEach E st (replicate N ray) d) = replicate N c"
  using assms
proof (induction N arbitrary: st)
  case 0
  show ?case by simp
next
  case (Suc N)
  have same: "sameScene st (snd (renderRay E st ray d))"
    using renderRay_calls [of st E ray d] by blast
  have "\<forall>st'. sameScene (snd (renderRay E st ray d)) st' \<longrightarrow> fst (renderRay E st' ray d) = c"
    using Suc.prems sameScene_trans [OF same] by blast
  then have "fst (renderRayEach E (snd (renderRay E st ray d)) (replicate N ray) d) = replicate N c"
    by (rule Suc.IH)
  moreover have "fst (renderRay E st ray d) = c"
    using Suc.prems sameScene_refl by blast
  ultimately show ?case
    by (simp add: split_def Let_def)
qed

lemma sum_list_replicate_vec3: "sum_list (replicate N c) = vscale c (real N)"
  by (induction N) (simp_all add: vec3_ops vec3_eq_iff algebra_simps)

lemma vdivs_vscale: "0 < N \<Longrightarrow> vdivs (vscale c (real N)) (real N) = c"
  by (simp add: vec3_ops vec3_eq_iff)

text \<open>
  C8, as the specification states it, fails: \<open>renderRays\<close> renders each ray in the
  state the previous ray left, and the sampler has advanced. Here the scene has
  one segment light sampled once per ray, the camera ray hits a surface and
  the shadow rays hit nothing, and shading is disabled. The first draw of the
  sampler is 0 and the second 1/2: one call of \<open>renderRay\<close> gives the colour
  \<open>(0,0,0)\<close>, the batch of two identical rays gives \<open>(1/4,1/4,1/4)\<close>.
\<close>

theorem renderRays_identical_rays_counterexample:
  "(1 :: nat) \<le> 2
   \<and> fst (renderRays (collab0 floorOnly) (state0 features0 [LSegment segmentLight0])
        (replicate 2 ray0) 0)
     \<noteq> Some (fst (renderRay (collab0 floorOnly) (state0 features0 [LSegment segmentLight0])
        ray0 0))"
  by (simp add: renderRays_def renderRay.simps numeral_2_eq_2 computeLightContribution_def
      computeContributionSegmentLight_def segmentLightSample_eq visibilityOfLightSampleBinary_eq
      binaryShadowRay_def computeShading_def sampleMaterialKd_def sampleSegmentLight_def mix_def
      intersect_def drawRay_def Let_def split_def floorOnly_def segmentLight0_def scene_defs
      normalize_vec_def vec3_ops)

text \<open>
  C8, amended. For a batch that is not empty \<open>renderRays\<close> returns the sum of the
  colours that \<open>renderRay\<close> gives for the rays, each rendered in the state left by
  the ray before it, divided by the number of rays. For \<open>N \<ge> 1\<close> identical rays
  this is the colour of a single \<open>renderRay\<close> call whenever that colour is the
  same in every state with the same scene and configuration, that is, when it
  does not depend on the sampler.
\<close>

theorem renderRays_mean:
  "(rays \<noteq> [] \<longrightarrow>
      fst (renderRays E st rays d) =
        Some (vdivs (sum_list (fst (renderRayEach E st rays d))) (real (length rays)))
      \<and> length (fst (renderRayEach E st rays d)) = length rays)
   \<and> (0 < N \<and> (\<forall>st'. sameScene st st' \<longrightarrow> fst (renderRay E st' ray d) = c) \<longrightarrow>
        fst (renderRays E st (replicate N ray) d) = Some c)"
proof -
  have z: "splat 0 = (0 :: vec3)"
    by (simp add: vec3_ops)
  have len: "length (fst (renderRayEach E st' rs d)) = length rs" for st' rs
    by (induction rs arbitrary: st') (simp_all add: split_def Let_def)
  have a: "fst (renderRays E st rays d) =
      Some (vdivs (sum_list (fst (renderRayEach E st rays d))) (real (length rays)))"
    if "rays \<noteq> []"
    using that by (simp add: renderRays_def renderRaysLoop_each z)
  have b: "fst (renderRays E st (replicate N ray) d) = Some c"
    if "0 < N" and "\<forall>st'. sameScene st st' \<longrightarrow> fst (renderRay E st' ray d) = c"
    using that(1) renderRayEach_replicate [OF that(2), of N]
    by (simp add: renderRays_def renderRaysLoop_each z sum_list_replicate_vec3 vdivs_vscale)
  from a b len show ?thesis by blast
qed

theorem renderRays_mean_witness:
  "replicate 3 ray0 \<noteq> [] \<and> (0 :: nat) < 3
   \<and> fst (renderRay (collab0 floorOnly) (state0 features0 [LPoint pointLight0]) ray0 0) =
       Vec3 1 1 1
   \<and> fst (renderRays (collab0 floorOnly) (state0 features0 [LPoint pointLight0])
        (replicate 3 ray0) 0) = Some (Vec3 1 1 1)"
proof -
  have h: "\<forall>st'. sameScene (state0 features0 [LPoint pointLight0]) st' \<longrightarrow>
         fst (renderRay (collab0 floorOnly) st' ray0 0) = Vec3 1 1 1"
    by (simp add: sameScene_def renderRay.simps computeLightContribution_def
      computeContributionPointLight_eq visibilityOfLightSampleBinary_eq pointLightShading_def
      binaryShadowRay_def computeShading_def sampleMaterialKd_def
      intersect_def drawRay_def Let_def split_def floorOnly_def scene_defs vec3_ops)
  have n: "(0 :: nat) < 3" by simp
  have r: "fst (renderRays (collab0 floorOnly) (state0 features0 [LPoint pointLight0])
        (replicate 3 ray0) 0) = Some (Vec3 1 1 1)"
    using h n renderRays_mean [of "replicate 3 ray0" "collab0 floorOnly"
        "state0 features0 [LPoint pointLight0]" 0 3 ray0 "Vec3 1 1 1"]
    by blast
  have e: "replicate 3 ray0 \<noteq> []" by simp
  have s: "fst (renderRay (collab0 floorOnly) (state0 features0 [LPoint pointLight0]) ray0 0) =
       Vec3 1 1 1"
    using h sameScene_refl by blast
  from e n s r show ?thesis by blast
qed

end
